theory Spec2Isabelle
  imports Main
begin

section \<open>JavaScript values and React elements\<close>

text \<open>
  The error slot of a resolution result has the TypeScript type \<open>any\<close>, and the code
  only ever tests it for truthiness (\<open>!error\<close>, \<open>a || b\<close>, \<open>if (error)\<close>).
  Values are modelled by their kind; objects that are not \<open>Error\<close> instances are
  identified by a reference. Numbers are integral here (\<open>NaN\<close>, which is falsy, is
  not represented).
\<close>

datatype jsval =
    JSNull
  | JSUndefined
  | JSBoolean bool
  | JSNumber int
  | JSString string
  | JSError string
  | JSObject nat

fun truthy :: "jsval \<Rightarrow> bool" where
  "truthy JSNull = False"
| "truthy JSUndefined = False"
| "truthy (JSBoolean b) = b"
| "truthy (JSNumber n) = (n \<noteq> 0)"
| "truthy (JSString s) = (s \<noteq> [])"
| "truthy (JSError m) = True"
| "truthy (JSObject a) = True"

text \<open>
  A React element: its host tag, its key and its props. \<open>React.cloneElement(el, {key: index})\<close>
  returns a copy of \<open>el\<close> whose key is the given index (React stores the key as the
  decimal string of the number; the model keeps the number).
\<close>

record react_element =
  tag :: string
  key :: "nat option"
  props :: "(string \<times> string) list"

definition cloneElement :: "react_element \<Rightarrow> nat \<Rightarrow> react_element" where
  "cloneElement el index = el\<lparr>key := Some index\<rparr>"

text \<open>
  What a component returns: \<open>null\<close>, an element, an array of nodes, or a fragment
  \<open><>...</>\<close> of child nodes. \<open>rendered_elements\<close> lists the elements React
  emits for a node, in document order: \<open>null\<close> emits nothing, arrays and fragments
  emit their children.
\<close>

datatype react_node =
    NodeNull
  | NodeElement react_element
  | NodeArray "react_node list"
  | NodeFragment "react_node list"

fun rendered_elements :: "react_node \<Rightarrow> react_element list" where
  "rendered_elements NodeNull = []"
| "rendered_elements (NodeElement el) = [el]"
| "rendered_elements (NodeArray ns) = concat (map rendered_elements ns)"
| "rendered_elements (NodeFragment ns) = concat (map rendered_elements ns)"

section \<open>The collaborators of \<open>metadata.tsx\<close>\<close>

text \<open>
  \<open>errorType?: 'not-found' | 'redirect'\<close>; an absent \<open>errorType\<close> is \<open>None\<close>.
\<close>

datatype error_type = NotFound | Redirect

type_synonym ParsedUrlQuery = "(string \<times> string list) list"

text \<open>
  The resolved metadata, as far as \<open>createMetadataElements\<close> reads it: the ten slices
  it hands to their builders (\<open>BasicMeta\<close> receives the whole object).
\<close>

record 'f ResolvedMetadata =
  alternates :: 'f
  itunes :: 'f
  facebook :: 'f
  formatDetection :: 'f
  verification :: 'f
  appleWebApp :: 'f
  openGraph :: 'f
  twitter :: 'f
  appLinks :: 'f
  icons :: 'f

text \<open>The argument object of one \<open>resolveMetadata\<close> call, field by field.\<close>

record ('t, 'g, 'x, 'p) resolve_args =
  tree :: 't
  parentParams :: "(string \<times> string) list"
  metadataItems :: "jsval list"
  errorMetadataItem :: "jsval \<times> jsval \<times> jsval"
  searchParams :: ParsedUrlQuery
  getDynamicParamFromSegment :: 'g
  errorConvention :: "error_type option"
  metadataContext :: 'x
  createDynamicallyTrackedParams :: 'p

text \<open>
  The functions \<open>metadata.tsx\<close> imports from other modules are parameters of the
  model. \<open>resolveMetadata\<close> returns a promise of \<open>[error, metadata, viewport]\<close>:
  \<open>Inr\<close> is the tuple it fulfils with, \<open>Inl\<close> the reason of a rejection.
  Each element builder returns an item of some type \<open>'i\<close>, and \<open>MetaFilter\<close> turns
  the list of items into the list of elements.
\<close>

record ('t, 'g, 'x, 'p, 'f, 'v, 'i) collaborators =
  resolveMetadata ::
    "('t, 'g, 'x, 'p) resolve_args \<Rightarrow> jsval + (jsval \<times> 'f ResolvedMetadata \<times> 'v)"
  isNotFoundError :: "jsval \<Rightarrow> bool"
  MetaFilter :: "'i list \<Rightarrow> react_element list"
  ViewportMeta :: "'v \<Rightarrow> 'i"
  BasicMeta :: "'f ResolvedMetadata \<Rightarrow> 'i"
  AlternatesMetadata :: "'f \<Rightarrow> 'i"
  ItunesMeta :: "'f \<Rightarrow> 'i"
  FacebookMeta :: "'f \<Rightarrow> 'i"
  FormatDetectionMeta :: "'f \<Rightarrow> 'i"
  VerificationMeta :: "'f \<Rightarrow> 'i"
  AppleWebAppMeta :: "'f \<Rightarrow> 'i"
  OpenGraphMetadata :: "'f \<Rightarrow> 'i"
  TwitterMetadata :: "'f \<Rightarrow> 'i"
  AppLinksMeta :: "'f \<Rightarrow> 'i"
  IconsMetadata :: "'f \<Rightarrow> 'i"

section \<open>\<open>createMetadataElements\<close> and \<open>getResolvedMetadata\<close>\<close>

definition createMetadataElements ::
  "('t, 'g, 'x, 'p, 'f, 'v, 'i) collaborators \<Rightarrow> 'f ResolvedMetadata \<Rightarrow> 'v \<Rightarrow> react_element list"
where
  "createMetadataElements env metadata viewport =
     MetaFilter env
       [ViewportMeta env viewport,
        BasicMeta env metadata,
        AlternatesMetadata env (alternates metadata),
        ItunesMeta env (itunes metadata),
        FacebookMeta env (facebook metadata),
        FormatDetectionMeta env (formatDetection metadata),
        VerificationMeta env (verification metadata),
        AppleWebAppMeta env (appleWebApp metadata),
        OpenGraphMetadata env (openGraph metadata),
        TwitterMetadata env (twitter metadata),
        AppLinksMeta env (appLinks metadata),
        IconsMetadata env (icons metadata)]"

text \<open>
  The object literal passed to \<open>resolveMetadata\<close>. The source writes it out twice
  (lines 189 to 199 and 209 to 219); the two literals differ in \<open>errorConvention\<close>
  only, which is the last argument here.
\<close>

definition resolve_pass ::
  "'t \<Rightarrow> ParsedUrlQuery \<Rightarrow> 'g \<Rightarrow> 'x \<Rightarrow> 'p \<Rightarrow> error_type option \<Rightarrow> ('t, 'g, 'x, 'p) resolve_args"
where
  "resolve_pass tree' searchParams' getDynamicParamFromSegment' metadataContext'
       createDynamicallyTrackedParams' errorConvention' =
     \<lparr>tree = tree', parentParams = [], metadataItems = [],
      errorMetadataItem = (JSNull, JSNull, JSNull), searchParams = searchParams',
      getDynamicParamFromSegment = getDynamicParamFromSegment',
      errorConvention = errorConvention', metadataContext = metadataContext',
      createDynamicallyTrackedParams = createDynamicallyTrackedParams'\<rparr>"

text \<open>
  \<open>getResolvedMetadata\<close> is an async function. The model returns the argument objects
  of the \<open>resolveMetadata\<close> calls it made, in order, and how its promise settles:
  \<open>Inr (error, elements)\<close> when it fulfils with that pair, \<open>Inl reason\<close> when an
  awaited resolver promise rejects (the \<open>await\<close> rethrows).
  \<open>!errorType\<close> holds exactly for the absent \<open>errorType\<close>, both strings being truthy.
\<close>

definition getResolvedMetadata ::
  "('t, 'g, 'x, 'p, 'f, 'v, 'i) collaborators \<Rightarrow> 't \<Rightarrow> ParsedUrlQuery \<Rightarrow> 'g \<Rightarrow> 'x \<Rightarrow>
   (ParsedUrlQuery \<Rightarrow> ParsedUrlQuery) \<Rightarrow> 'p \<Rightarrow> error_type option \<Rightarrow>
   ('t, 'g, 'x, 'p) resolve_args list \<times> (jsval + (jsval \<times> react_element list))"
where
  "getResolvedMetadata env tree' query getDynamicParamFromSegment' metadataContext'
       createDynamicallyTrackedSearchParams createDynamicallyTrackedParams' errorType =
     (let errorConvention' = (if errorType = Some Redirect then None else errorType);
          searchParams' = createDynamicallyTrackedSearchParams query;
          firstPass = resolve_pass tree' searchParams' getDynamicParamFromSegment'
            metadataContext' createDynamicallyTrackedParams' errorConvention'
      in case resolveMetadata env firstPass of
           Inl reason \<Rightarrow> ([firstPass], Inl reason)
         | Inr (error, metadata, viewport) \<Rightarrow>
             if \<not> truthy error then
               ([firstPass], Inr (JSNull, createMetadataElements env metadata viewport))
             else if errorType = None \<and> isNotFoundError env error then
               (let notFoundPass = resolve_pass tree' searchParams' getDynamicParamFromSegment'
                      metadataContext' createDynamicallyTrackedParams' (Some NotFound)
                in case resolveMetadata env notFoundPass of
                     Inl reason \<Rightarrow> ([firstPass, notFoundPass], Inl reason)
                   | Inr (notFoundMetadataError, notFoundMetadata, notFoundViewport) \<Rightarrow>
                       ([firstPass, notFoundPass],
                        Inr (if truthy notFoundMetadataError then notFoundMetadataError else error,
                             createMetadataElements env notFoundMetadata notFoundViewport)))
             else ([firstPass], Inr (error, [])))"

section \<open>\<open>createMetadataContext\<close> and \<open>createTrackedMetadataContext\<close>\<close>

text \<open>
  The two fields of \<open>renderOpts\<close> that \<open>createMetadataContext\<close> reads.
\<close>

record RenderOpts =
  renderOpts_trailingSlash :: bool
  renderOpts_nextConfigOutput :: "string option"

text \<open>
  The fields of the static generation store that the getter reads.
  \<open>fallbackRouteParams\<close> is a \<open>Map\<close> or \<open>null\<close>; the getter only compares its
  \<open>size\<close> with \<open>0\<close>, which for the list of its entries is the length being positive.
\<close>

record StaticGenerationStore =
  isStaticGeneration :: bool
  fallbackRouteParams :: "(string \<times> string) list option"

text \<open>
  Reading a property of an object may run a getter: in a world \<open>'w\<close> (whatever the
  getter's callees record) the read either throws (\<open>Inl\<close>) or yields the value,
  and leaves a world. A data property yields its value and leaves the world as it is.
\<close>

type_synonym ('w, 'a) property = "'w \<Rightarrow> (jsval + 'a) \<times> 'w"

definition data_property :: "'a \<Rightarrow> ('w, 'a) property" where
  "data_property v = (\<lambda>w. (Inr v, w))"

record 'w MetadataContext =
  pathname :: "('w, string) property"
  trailingSlash :: bool
  isStandaloneMode :: bool

definition createMetadataContext :: "string \<Rightarrow> RenderOpts \<Rightarrow> 'w MetadataContext" where
  "createMetadataContext pathname' renderOpts =
     \<lparr>pathname = data_property pathname',
      trailingSlash = renderOpts_trailingSlash renderOpts,
      isStandaloneMode = (renderOpts_nextConfigOutput renderOpts = Some ''standalone'')\<rparr>"

text \<open>
  \<open>trackFallbackParamAccessed\<close> is imported from \<open>dynamic-rendering\<close> and is a
  parameter here: called with the store and the expression in a world, it leaves a
  world and either returns (\<open>None\<close>) or throws (\<open>Some reason\<close>). The comment above the
  getter says what it is for: when the pathname is read to resolve a relative URL
  during such a render, "we don't want to provide it, and instead we should error".
  A throw of the tracker leaves the getter before its \<open>return pathname\<close>.
\<close>

definition createTrackedMetadataContext ::
  "(StaticGenerationStore \<Rightarrow> string \<Rightarrow> 'w \<Rightarrow> jsval option \<times> 'w) \<Rightarrow>
   string \<Rightarrow> RenderOpts \<Rightarrow> StaticGenerationStore option \<Rightarrow> 'w MetadataContext"
where
  "createTrackedMetadataContext trackFallbackParamAccessed pathname' renderOpts staticGenerationStore =
     (createMetadataContext pathname' renderOpts)
     \<lparr>pathname := (\<lambda>w.
        case staticGenerationStore of
          None \<Rightarrow> (Inr pathname', w)
        | Some store \<Rightarrow>
            if isStaticGeneration store \<and>
               (case fallbackRouteParams store of
                  None \<Rightarrow> False
                | Some params \<Rightarrow> 0 < length params)
            then (case trackFallbackParamAccessed store ''pathname'' w of
                    (Some reason, w') \<Rightarrow> (Inl reason, w')
                  | (None, w') \<Rightarrow> (Inr pathname', w'))
            else (Inr pathname', w))\<rparr>"

section \<open>\<open>createMetadataComponents\<close>: the two components and their shared cell\<close>

text \<open>
  The argument object of \<open>createMetadataComponents\<close>, which both closures capture.
\<close>

record ('t, 'g, 'x, 'p) components_args =
  cfg_tree :: 't
  cfg_query :: ParsedUrlQuery
  cfg_metadataContext :: 'x
  cfg_getDynamicParamFromSegment :: 'g
  cfg_appUsingSizeAdjustment :: bool
  cfg_errorType :: "error_type option"
  cfg_createDynamicallyTrackedSearchParams :: "ParsedUrlQuery \<Rightarrow> ParsedUrlQuery"
  cfg_createDynamicallyTrackedParams :: 'p

datatype 'a promise_state = Pending | Fulfilled 'a | Rejected jsval

text \<open>
  What one execution of \<open>MetadataTree\<close> allocates: the promise \<open>pendingMetadata\<close>, the
  promise \<open>metadataReady\<close> derived from it with its two expando fields \<open>status\<close>
  and \<open>value\<close> (\<open>None\<close> is a \<open>status\<close> not yet assigned; the field \<open>value\<close>
  is \<open>ready_value\<close> here), and the promise the async function itself returned.
\<close>

record MetadataTree_frame =
  pendingMetadata :: "(jsval \<times> react_element list) promise_state"
  metadataReady :: "jsval promise_state"
  status :: "string option"
  ready_value :: jsval
  returned :: "react_node promise_state"

text \<open>
  The promise a call of \<open>getMetadataReady\<close> returned: its callback has not run yet,
  or it returned \<open>currentMetadataReady\<close> (the promise is then resolved with that
  promise and follows it), or it threw.
\<close>

datatype outlet = Scheduled | Follows nat | Threw jsval

text \<open>
  The continuations the code registers, as jobs of the microtask queue:
  the two callbacks of \<open>pendingMetadata.then\<close> (lines 125 to 138), the rest of
  \<open>MetadataTree\<close> after its \<open>await\<close> (lines 148 to 157), and the callback of
  \<open>getMetadataReady\<close> (lines 161 to 168). The no-op handler of line 144 changes
  nothing and has no job.
\<close>

datatype job = Then_pendingMetadata nat | Await_pendingMetadata nat | Then_getMetadataReady nat

text \<open>
  The state of one \<open>createMetadataComponents\<close> call: the cell
  \<open>currentMetadataReady\<close> (\<open>null\<close>, or a reference to the \<open>metadataReady\<close> of a
  frame), the frames allocated so far, the promises \<open>getMetadataReady\<close> returned so
  far, and the microtask queue, oldest job first.
\<close>

record state =
  currentMetadataReady :: "nat option"
  frames :: "MetadataTree_frame list"
  outlets :: "outlet list"
  microtasks :: "job list"

definition createMetadataComponents :: state where
  "createMetadataComponents =
     \<lparr>currentMetadataReady = None, frames = [], outlets = [], microtasks = []\<rparr>"

text \<open>
  How the promise of the call \<open>getResolvedMetadata(tree, query, ...)\<close> of lines 111 to
  119 settles.
\<close>

definition resolution ::
  "('t, 'g, 'x, 'p, 'f, 'v, 'i) collaborators \<Rightarrow> ('t, 'g, 'x, 'p) components_args \<Rightarrow>
   (jsval \<times> react_element list) promise_state"
where
  "resolution env cfg =
     (case snd (getResolvedMetadata env (cfg_tree cfg) (cfg_query cfg)
                  (cfg_getDynamicParamFromSegment cfg) (cfg_metadataContext cfg)
                  (cfg_createDynamicallyTrackedSearchParams cfg)
                  (cfg_createDynamicallyTrackedParams cfg) (cfg_errorType cfg)) of
        Inl reason \<Rightarrow> Rejected reason
      | Inr outcome \<Rightarrow> Fulfilled outcome)"

text \<open>
  A call of \<open>MetadataTree\<close> runs synchronously up to its \<open>await\<close>: it starts the
  resolution, derives \<open>metadataReady\<close> (whose callbacks cannot run before the call
  stack is empty), assigns \<open>status = 'pending'\<close> (line 140) and stores the promise
  in the cell (line 141).
\<close>

definition MetadataTree_call :: "state \<Rightarrow> state" where
  "MetadataTree_call s =
     (let frame = \<lparr>pendingMetadata = Pending, metadataReady = Pending, status = None,
                    ready_value = JSUndefined, returned = Pending\<rparr>;
          frame = frame\<lparr>status := Some ''pending''\<rparr>
      in s\<lparr>frames := frames s @ [frame], currentMetadataReady := Some (length (frames s))\<rparr>)"

text \<open>
  The promise \<open>pendingMetadata\<close> of frame \<open>h\<close> settles (a promise settles once):
  its reactions are queued in the order they were registered, the \<open>then\<close>
  callbacks of line 124 before the continuation of the \<open>await\<close> of line 148.
\<close>

definition pendingMetadata_settles ::
  "('t, 'g, 'x, 'p, 'f, 'v, 'i) collaborators \<Rightarrow> ('t, 'g, 'x, 'p) components_args \<Rightarrow>
   nat \<Rightarrow> state \<Rightarrow> state"
where
  "pendingMetadata_settles env cfg h s =
     (if h < length (frames s) \<and> pendingMetadata (frames s ! h) = Pending
      then s\<lparr>frames := (frames s)[h := (frames s ! h)\<lparr>pendingMetadata := resolution env cfg\<rparr>],
             microtasks := microtasks s @ [Then_pendingMetadata h, Await_pendingMetadata h]\<rparr>
      else s)"

text \<open>
  The callbacks of lines 125 to 138. Throwing from a callback rejects the derived
  promise \<open>metadataReady\<close>, returning fulfils it with \<open>undefined\<close>. The callbacks
  run on a settled \<open>pendingMetadata\<close> only; on a pending one the frame is left
  as it is.
\<close>

definition metadataReady_then :: "MetadataTree_frame \<Rightarrow> MetadataTree_frame" where
  "metadataReady_then frame =
     (case pendingMetadata frame of
        Fulfilled (error, elements) \<Rightarrow>
          if truthy error
          then frame\<lparr>status := Some ''rejected'', ready_value := error,
                     metadataReady := Rejected error\<rparr>
          else frame\<lparr>status := Some ''fulfilled'', ready_value := JSUndefined,
                     metadataReady := Fulfilled JSUndefined\<rparr>
      | Rejected error \<Rightarrow>
          frame\<lparr>status := Some ''rejected'', ready_value := error,
                metadataReady := Rejected error\<rparr>
      | Pending \<Rightarrow> frame)"

text \<open>Lines 150 to 157: the fragment \<open>MetadataTree\<close> returns.\<close>

definition MetadataTree_render :: "bool \<Rightarrow> react_element list \<Rightarrow> react_node" where
  "MetadataTree_render appUsingSizeAdjustment elements =
     NodeFragment
       [NodeArray (map (\<lambda>(index, el). NodeElement (cloneElement el index)) (enumerate 0 elements)),
        if appUsingSizeAdjustment
        then NodeElement \<lparr>tag = ''meta'', key = None, props = [(''name'', ''next-size-adjust'')]\<rparr>
        else NodeNull]"

text \<open>
  Line 148 onwards: \<open>await pendingMetadata\<close> yields the pair, of which the error is
  dropped, or rethrows the reason of a rejection out of \<open>MetadataTree\<close>.
\<close>

definition MetadataTree_resume ::
  "('t, 'g, 'x, 'p) components_args \<Rightarrow> MetadataTree_frame \<Rightarrow> MetadataTree_frame"
where
  "MetadataTree_resume cfg frame =
     (case pendingMetadata frame of
        Fulfilled (error, elements) \<Rightarrow>
          frame\<lparr>returned := Fulfilled (MetadataTree_render (cfg_appUsingSizeAdjustment cfg) elements)\<rparr>
      | Rejected reason \<Rightarrow> frame\<lparr>returned := Rejected reason\<rparr>
      | Pending \<Rightarrow> frame)"

text \<open>
  \<open>getMetadataReady\<close> returns \<open>Promise.resolve().then(callback)\<close>: the callback is
  queued at once and runs as a microtask, where it reads the cell.
\<close>

definition getMetadataReady_call :: "state \<Rightarrow> state" where
  "getMetadataReady_call s =
     s\<lparr>outlets := outlets s @ [Scheduled],
       microtasks := microtasks s @ [Then_getMetadataReady (length (outlets s))]\<rparr>"

definition getMetadataReady_then :: "nat option \<Rightarrow> outlet" where
  "getMetadataReady_then cell =
     (case cell of
        Some ready \<Rightarrow> Follows ready
      | None \<Rightarrow> Threw (JSError ''getMetadataReady was called before MetadataTree rendered''))"

text \<open>
  The state of the promise a \<open>getMetadataReady\<close> call returned. A promise resolved
  with \<open>metadataReady\<close> settles as \<open>metadataReady\<close> does (the ticks in between are
  not modelled). It is read for a promise that exists, \<open>k < length (outlets s)\<close>.
\<close>

definition getMetadataReady_promise :: "state \<Rightarrow> nat \<Rightarrow> jsval promise_state" where
  "getMetadataReady_promise s k =
     (case outlets s ! k of
        Scheduled \<Rightarrow> Pending
      | Threw reason \<Rightarrow> Rejected reason
      | Follows h \<Rightarrow> metadataReady (frames s ! h))"

fun run_job ::
  "('t, 'g, 'x, 'p) components_args \<Rightarrow> job \<Rightarrow> state \<Rightarrow> state"
where
  "run_job cfg (Then_pendingMetadata h) s =
     s\<lparr>frames := (frames s)[h := metadataReady_then (frames s ! h)]\<rparr>"
| "run_job cfg (Await_pendingMetadata h) s =
     s\<lparr>frames := (frames s)[h := MetadataTree_resume cfg (frames s ! h)]\<rparr>"
| "run_job cfg (Then_getMetadataReady k) s =
     s\<lparr>outlets := (outlets s)[k := getMetadataReady_then (currentMetadataReady s)]\<rparr>"

text \<open>
  What can happen next: the host calls one of the two functions, the resolution of a
  frame settles, or the oldest microtask runs. JavaScript runs each to completion.
\<close>

datatype event =
    Call_MetadataTree
  | Call_getMetadataReady
  | Settle_pendingMetadata nat
  | Run_microtask

fun step ::
  "('t, 'g, 'x, 'p, 'f, 'v, 'i) collaborators \<Rightarrow> ('t, 'g, 'x, 'p) components_args \<Rightarrow>
   event \<Rightarrow> state \<Rightarrow> state"
where
  "step env cfg Call_MetadataTree s = MetadataTree_call s"
| "step env cfg Call_getMetadataReady s = getMetadataReady_call s"
| "step env cfg (Settle_pendingMetadata h) s = pendingMetadata_settles env cfg h s"
| "step env cfg Run_microtask s =
     (case microtasks s of
        [] \<Rightarrow> s
      | job # queue \<Rightarrow> run_job cfg job (s\<lparr>microtasks := queue\<rparr>))"

definition run ::
  "('t, 'g, 'x, 'p, 'f, 'v, 'i) collaborators \<Rightarrow> ('t, 'g, 'x, 'p) components_args \<Rightarrow>
   event list \<Rightarrow> state \<Rightarrow> state"
where
  "run env cfg events s = foldl (\<lambda>s e. step env cfg e s) s events"

text \<open>
  What holds of every frame a run can produce: \<open>pendingMetadata\<close> is pending or
  settled as the resolution settles; the readiness fields are the ones
  \<open>MetadataTree_call\<close> assigned, or the ones the \<open>then\<close> callbacks assign on the
  settled promise; and the returned promise is pending, or settled as the rest of
  \<open>MetadataTree\<close> settles it on the settled promise.
\<close>

definition frame_consistent ::
  "('t, 'g, 'x, 'p, 'f, 'v, 'i) collaborators \<Rightarrow> ('t, 'g, 'x, 'p) components_args \<Rightarrow>
   MetadataTree_frame \<Rightarrow> bool"
where
  "frame_consistent env cfg frame =
     ((pendingMetadata frame = Pending \<or> pendingMetadata frame = resolution env cfg) \<and>
      (status frame = Some ''pending'' \<and> ready_value frame = JSUndefined \<and>
         metadataReady frame = Pending
       \<or> pendingMetadata frame \<noteq> Pending \<and>
         status frame = status (metadataReady_then frame) \<and>
         ready_value frame = ready_value (metadataReady_then frame) \<and>
         metadataReady frame = metadataReady (metadataReady_then frame)) \<and>
      (returned frame = Pending
       \<or> pendingMetadata frame \<noteq> Pending \<and>
         returned frame = returned (MetadataTree_resume cfg frame)))"

text \<open>
  The callbacks of \<open>getMetadataReady\<close> that wait in a queue, by the promise they
  settle, and what holds of them in every state a run can produce: no callback
  waits twice, and the promises whose callback waits are exactly the ones that
  are still \<open>Scheduled\<close>.
\<close>

fun waiting_callbacks :: "job list \<Rightarrow> nat list" where
  "waiting_callbacks [] = []"
| "waiting_callbacks (Then_getMetadataReady k # queue) = k # waiting_callbacks queue"
| "waiting_callbacks (job # queue) = waiting_callbacks queue"

definition outlets_consistent :: "state \<Rightarrow> bool" where
  "outlets_consistent s =
     (distinct (waiting_callbacks (microtasks s)) \<and>
      set (waiting_callbacks (microtasks s)) =
        {k. k < length (outlets s) \<and> outlets s ! k = Scheduled})"

section \<open>A concrete request\<close>

text \<open>
  A small instance on which the theorems below are evaluated: a page whose
  metadata resolution raises the not-found error under the default convention and
  yields the metadata of the not-found page under the \<open>'not-found'\<close> convention.
  Slices are optional strings, each builder emits one \<open>meta\<close> tag for a present
  slice, and \<open>MetaFilter\<close> flattens.
\<close>

definition meta_element :: "string \<Rightarrow> string \<Rightarrow> react_element" where
  "meta_element name content =
     \<lparr>tag = ''meta'', key = None, props = [(''name'', name), (''content'', content)]\<rparr>"

definition demo_metadata :: "string option ResolvedMetadata" where
  "demo_metadata =
     \<lparr>alternates = None, itunes = None, facebook = None, formatDetection = None,
      verification = None, appleWebApp = None, openGraph = None, twitter = None,
      appLinks = None, icons = None\<rparr>"

definition demo_builder :: "string \<Rightarrow> string option \<Rightarrow> react_element list" where
  "demo_builder name slice =
     (case slice of None \<Rightarrow> [] | Some content \<Rightarrow> [meta_element name content])"

definition demo_env ::
  "(string, unit, unit, unit, string option, string, react_element list) collaborators"
where
  "demo_env =
     \<lparr>resolveMetadata = (\<lambda>args.
        case errorConvention args of
          None \<Rightarrow> Inr (JSError ''NEXT_NOT_FOUND'',
                       demo_metadata\<lparr>openGraph := Some ''Post''\<rparr>, ''width=device-width'')
        | Some convention \<Rightarrow> Inr (JSUndefined,
                       demo_metadata\<lparr>twitter := Some ''Not Found''\<rparr>, ''width=device-width'')),
      isNotFoundError = (\<lambda>error. error = JSError ''NEXT_NOT_FOUND''),
      MetaFilter = concat,
      ViewportMeta = (\<lambda>viewport. [meta_element ''viewport'' viewport]),
      BasicMeta = (\<lambda>metadata. []),
      AlternatesMetadata = demo_builder ''alternates'',
      ItunesMeta = demo_builder ''itunes'',
      FacebookMeta = demo_builder ''facebook'',
      FormatDetectionMeta = demo_builder ''format-detection'',
      VerificationMeta = demo_builder ''verification'',
      AppleWebAppMeta = demo_builder ''apple-web-app'',
      OpenGraphMetadata = demo_builder ''og:title'',
      TwitterMetadata = demo_builder ''twitter:title'',
      AppLinksMeta = demo_builder ''al'',
      IconsMetadata = demo_builder ''icon''\<rparr>"

definition demo_args :: "error_type option \<Rightarrow> bool \<Rightarrow> (string, unit, unit, unit) components_args" where
  "demo_args errorType appUsingSizeAdjustment =
     \<lparr>cfg_tree = ''/blog'', cfg_query = [], cfg_metadataContext = (),
      cfg_getDynamicParamFromSegment = (), cfg_appUsingSizeAdjustment = appUsingSizeAdjustment,
      cfg_errorType = errorType, cfg_createDynamicallyTrackedSearchParams = id,
      cfg_createDynamicallyTrackedParams = ()\<rparr>"

text \<open>
  A tracker that records the expression and then throws, as a postponing tracker
  does, and a store of a static render with one outstanding fallback parameter.
\<close>

definition demo_tracker :: "StaticGenerationStore \<Rightarrow> string \<Rightarrow> string list \<Rightarrow> jsval option \<times> string list" where
  "demo_tracker store expression accessed =
     (Some (JSError ''postponed''), accessed @ [expression])"

definition demo_store :: StaticGenerationStore where
  "demo_store = \<lparr>isStaticGeneration = True, fallbackRouteParams = Some [(''slug'', ''%%drp:slug%%'')]\<rparr>"

text \<open>The same page with a resolver whose promise rejects.\<close>

definition demo_rejecting_env ::
  "(string, unit, unit, unit, string option, string, react_element list) collaborators"
where
  "demo_rejecting_env = demo_env\<lparr>resolveMetadata := (\<lambda>args. Inl (JSError ''boom''))\<rparr>"

section \<open>The resolution orchestrator\<close>

lemma errorType_cases:
  "errorType = None \<or> errorType = Some NotFound \<or> errorType = Some Redirect"
  by (metis error_type.exhaust option.exhaust)

lemma errorConvention_resolve_pass [simp]:
  "errorConvention (resolve_pass t sp g x p convention) = convention"
  by (simp add: resolve_pass_def)

lemma tree_resolve_pass [simp]: "tree (resolve_pass t sp g x p convention) = t"
  by (simp add: resolve_pass_def)

text \<open>The first \<open>resolveMetadata\<close> call is made on every path, with these arguments.\<close>

lemma getResolvedMetadata_first_call:
  "take 1 (fst (getResolvedMetadata env t q g x s p errorType)) =
     [resolve_pass t (s q) g x p (if errorType = Some Redirect then None else errorType)]"
  by (auto simp add: getResolvedMetadata_def Let_def split: sum.splits prod.splits)

text \<open>A resolver promise that rejects makes the promise of \<open>getResolvedMetadata\<close> reject.\<close>

lemma getResolvedMetadata_first_pass_rejects:
  "resolveMetadata env
     (resolve_pass t (s q) g x p (if errorType = Some Redirect then None else errorType)) = Inl reason
   \<Longrightarrow> snd (getResolvedMetadata env t q g x s p errorType) = Inl reason"
  by (simp add: getResolvedMetadata_def Let_def)

lemma demo_first_pass:
  "resolveMetadata demo_env (resolve_pass ''/blog'' (id []) () () () None) =
     Inr (JSError ''NEXT_NOT_FOUND'', demo_metadata\<lparr>openGraph := Some ''Post''\<rparr>, ''width=device-width'')"
  by (simp add: demo_env_def)

lemma demo_not_found_pass:
  "resolveMetadata demo_env (resolve_pass ''/blog'' (id []) () () () (Some NotFound)) =
     Inr (JSUndefined, demo_metadata\<lparr>twitter := Some ''Not Found''\<rparr>, ''width=device-width'')"
  by (simp add: demo_env_def)

lemma demo_not_found_elements:
  "createMetadataElements demo_env (demo_metadata\<lparr>twitter := Some ''Not Found''\<rparr>) ''width=device-width'' =
     [meta_element ''viewport'' ''width=device-width'', meta_element ''twitter:title'' ''Not Found'']"
  by (simp add: createMetadataElements_def demo_env_def demo_metadata_def demo_builder_def)

lemma demo_is_not_found: "isNotFoundError demo_env (JSError ''NEXT_NOT_FOUND'')"
  by (simp add: demo_env_def)

text \<open>
  C1. When the first pass returns an error that is a not-found error and no
  \<open>errorType\<close> was given, \<open>getResolvedMetadata\<close> calls the resolver exactly once
  more, on the same tree with the convention \<open>'not-found'\<close>, and (the fallback
  pass returning its tuple) fulfils with the fallback pass's error if it has one,
  the first error otherwise, paired with the elements built from the fallback
  pass's metadata and viewport; nothing of the first pass's metadata is used.
\<close>

theorem fallback_pass_on_not_found:
  assumes "resolveMetadata env (resolve_pass t (s q) g x p None) = Inr (error, metadata, viewport)"
    and "truthy error"
    and "isNotFoundError env error"
    and "resolveMetadata env (resolve_pass t (s q) g x p (Some NotFound)) =
           Inr (notFoundError, notFoundMetadata, notFoundViewport)"
  shows "getResolvedMetadata env t q g x s p None =
           ([resolve_pass t (s q) g x p None, resolve_pass t (s q) g x p (Some NotFound)],
            Inr (if truthy notFoundError then notFoundError else error,
                 createMetadataElements env notFoundMetadata notFoundViewport))
         \<and> map tree (fst (getResolvedMetadata env t q g x s p None)) = [t, t]
         \<and> map errorConvention (fst (getResolvedMetadata env t q g x s p None)) =
             [None, Some NotFound]"
proof -
  have "getResolvedMetadata env t q g x s p None =
           ([resolve_pass t (s q) g x p None, resolve_pass t (s q) g x p (Some NotFound)],
            Inr (if truthy notFoundError then notFoundError else error,
                 createMetadataElements env notFoundMetadata notFoundViewport))"
    using assms by (simp add: getResolvedMetadata_def Let_def)
  then show ?thesis
    by simp
qed

theorem fallback_pass_on_not_found_witness:
  "getResolvedMetadata demo_env ''/blog'' [] () () id () None =
     ([resolve_pass ''/blog'' [] () () () None, resolve_pass ''/blog'' [] () () () (Some NotFound)],
      Inr (JSError ''NEXT_NOT_FOUND'',
           [meta_element ''viewport'' ''width=device-width'',
            meta_element ''twitter:title'' ''Not Found'']))"
proof -
  have "truthy (JSError ''NEXT_NOT_FOUND'')"
    by simp
  from fallback_pass_on_not_found [where s = id and q = "[]",
      OF demo_first_pass this demo_is_not_found demo_not_found_pass]
  show ?thesis
    by (simp add: demo_not_found_elements)
qed

text \<open>
  C2, as the code has it. The claim that a non-null error always comes with an
  empty element list fails on the fallback path: there the error is non-null and
  the elements are those of the fallback pass.
\<close>

theorem error_with_elements_counterexample:
  "snd (getResolvedMetadata demo_env ''/blog'' [] () () id () None) =
     Inr (JSError ''NEXT_NOT_FOUND'',
          [meta_element ''viewport'' ''width=device-width'',
           meta_element ''twitter:title'' ''Not Found''])
   \<and> JSError ''NEXT_NOT_FOUND'' \<noteq> JSNull
   \<and> [meta_element ''viewport'' ''width=device-width'',
       meta_element ''twitter:title'' ''Not Found''] \<noteq> []"
  by (simp add: getResolvedMetadata_def Let_def demo_first_pass [simplified]
      demo_not_found_pass [simplified] demo_is_not_found demo_not_found_elements)

text \<open>
  C2, amended. Whenever the returned error is non-null, either no fallback pass
  ran (one resolver call) and the element list is empty, or no \<open>errorType\<close> was
  given, the fallback pass ran (two resolver calls) and the elements are the ones
  built from the fallback pass's metadata and viewport.
\<close>

theorem error_elements_only_from_fallback:
  assumes "getResolvedMetadata env t q g x s p errorType = (calls, Inr (error, elements))"
    and "error \<noteq> JSNull"
  shows "elements = [] \<and> length calls = 1
         \<or> (errorType = None \<and> length calls = 2 \<and>
            (\<exists>notFoundError notFoundMetadata notFoundViewport.
               resolveMetadata env (resolve_pass t (s q) g x p (Some NotFound)) =
                 Inr (notFoundError, notFoundMetadata, notFoundViewport) \<and>
               elements = createMetadataElements env notFoundMetadata notFoundViewport))"
  using assms
  by (auto simp add: getResolvedMetadata_def Let_def split: sum.splits prod.splits if_splits)

theorem error_elements_only_from_fallback_witness:
  "getResolvedMetadata demo_env ''/blog'' [] () () id () (Some Redirect) =
     ([resolve_pass ''/blog'' [] () () () None], Inr (JSError ''NEXT_NOT_FOUND'', []))
   \<and> JSError ''NEXT_NOT_FOUND'' \<noteq> JSNull
   \<and> ([] :: react_element list) = []
   \<and> length [resolve_pass ''/blog'' [] () () () None :: (string, unit, unit, unit) resolve_args] = 1"
proof -
  have call: "getResolvedMetadata demo_env ''/blog'' [] () () id () (Some Redirect) =
     ([resolve_pass ''/blog'' [] () () () None], Inr (JSError ''NEXT_NOT_FOUND'', []))"
    by (simp add: getResolvedMetadata_def Let_def demo_first_pass [simplified])
  have nonnull: "JSError ''NEXT_NOT_FOUND'' \<noteq> JSNull"
    by simp
  from error_elements_only_from_fallback [OF call nonnull] call nonnull
  show ?thesis
    by simp
qed

text \<open>
  C3. When the first pass returns an error and either an \<open>errorType\<close> was given
  or the error is not a not-found error, the resolver is called exactly once and
  \<open>getResolvedMetadata\<close> fulfils with that error and no elements.
\<close>

theorem no_fallback_returns_error_without_elements:
  assumes "resolveMetadata env
             (resolve_pass t (s q) g x p (if errorType = Some Redirect then None else errorType)) =
           Inr (error, metadata, viewport)"
    and "truthy error"
    and "errorType \<noteq> None \<or> \<not> isNotFoundError env error"
  shows "getResolvedMetadata env t q g x s p errorType =
           ([resolve_pass t (s q) g x p (if errorType = Some Redirect then None else errorType)],
            Inr (error, []))"
  using assms by (auto simp add: getResolvedMetadata_def Let_def)

theorem no_fallback_returns_error_without_elements_witness:
  "getResolvedMetadata demo_env ''/blog'' [] () () id () (Some Redirect) =
     ([resolve_pass ''/blog'' [] () () () None], Inr (JSError ''NEXT_NOT_FOUND'', []))"
proof -
  have first: "resolveMetadata demo_env
      (resolve_pass ''/blog'' (id []) () () ()
         (if Some Redirect = Some Redirect then None else Some Redirect)) =
     Inr (JSError ''NEXT_NOT_FOUND'', demo_metadata\<lparr>openGraph := Some ''Post''\<rparr>, ''width=device-width'')"
    using demo_first_pass by simp
  have "truthy (JSError ''NEXT_NOT_FOUND'')"
    by simp
  moreover have "Some Redirect \<noteq> None \<or> \<not> isNotFoundError demo_env (JSError ''NEXT_NOT_FOUND'')"
    by simp
  ultimately show ?thesis
    using no_fallback_returns_error_without_elements [where s = id and q = "[]", OF first] by simp
qed

text \<open>
  C8. When the first pass returns no error, \<open>getResolvedMetadata\<close> fulfils with a
  \<open>null\<close> error and the list \<open>MetaFilter\<close> makes of the twelve builders' items, in
  the order of the source, from the resolved metadata and viewport; the resolver
  is called once.
\<close>

theorem no_error_returns_builder_elements:
  assumes "resolveMetadata env
             (resolve_pass t (s q) g x p (if errorType = Some Redirect then None else errorType)) =
           Inr (error, metadata, viewport)"
    and "\<not> truthy error"
  shows "getResolvedMetadata env t q g x s p errorType =
           ([resolve_pass t (s q) g x p (if errorType = Some Redirect then None else errorType)],
            Inr (JSNull,
                 MetaFilter env
                   [ViewportMeta env viewport,
                    BasicMeta env metadata,
                    AlternatesMetadata env (alternates metadata),
                    ItunesMeta env (itunes metadata),
                    FacebookMeta env (facebook metadata),
                    FormatDetectionMeta env (formatDetection metadata),
                    VerificationMeta env (verification metadata),
                    AppleWebAppMeta env (appleWebApp metadata),
                    OpenGraphMetadata env (openGraph metadata),
                    TwitterMetadata env (twitter metadata),
                    AppLinksMeta env (appLinks metadata),
                    IconsMetadata env (icons metadata)]))"
  using assms by (simp add: getResolvedMetadata_def Let_def createMetadataElements_def)

theorem no_error_returns_builder_elements_witness:
  "getResolvedMetadata demo_env ''/blog'' [] () () id () (Some NotFound) =
     ([resolve_pass ''/blog'' [] () () () (Some NotFound)],
      Inr (JSNull,
           [meta_element ''viewport'' ''width=device-width'',
            meta_element ''twitter:title'' ''Not Found'']))"
proof -
  have first: "resolveMetadata demo_env
      (resolve_pass ''/blog'' (id []) () () ()
         (if Some NotFound = Some Redirect then None else Some NotFound)) =
     Inr (JSUndefined, demo_metadata\<lparr>twitter := Some ''Not Found''\<rparr>, ''width=device-width'')"
    using demo_not_found_pass by simp
  have "\<not> truthy JSUndefined"
    by simp
  from no_error_returns_builder_elements [where s = id and q = "[]", OF first this]
  show ?thesis
    using demo_not_found_elements by (simp add: createMetadataElements_def)
qed

text \<open>The resolver is called once or twice, the second time with \<open>'not-found'\<close>.\<close>

lemma getResolvedMetadata_calls:
  "fst (getResolvedMetadata env t q g x s p errorType) =
     [resolve_pass t (s q) g x p (if errorType = Some Redirect then None else errorType)]
   \<or> fst (getResolvedMetadata env t q g x s p errorType) =
     [resolve_pass t (s q) g x p (if errorType = Some Redirect then None else errorType),
      resolve_pass t (s q) g x p (Some NotFound)]"
  by (auto simp add: getResolvedMetadata_def Let_def split: sum.splits prod.splits)

text \<open>
  C9. The error convention of the first resolver call, which every invocation
  makes (lines 186 to 196), is \<open>undefined\<close> for the \<open>errorType\<close> \<open>'redirect'\<close> and for
  an absent \<open>errorType\<close>, and \<open>'not-found'\<close> exactly for the \<open>errorType\<close>
  \<open>'not-found'\<close>; and no resolver call is ever given \<open>'redirect'\<close> as convention.
\<close>

theorem errorConvention_of_errorType:
  "map errorConvention (take 1 (fst (getResolvedMetadata env t q g x s p errorType))) =
     [if errorType = Some NotFound then Some NotFound else None]
   \<and> Some Redirect \<notin> set (map errorConvention (fst (getResolvedMetadata env t q g x s p errorType)))"
proof -
  have first: "map errorConvention (take 1 (fst (getResolvedMetadata env t q g x s p errorType))) =
     [if errorType = Some NotFound then Some NotFound else None]"
    unfolding getResolvedMetadata_first_call
    using errorType_cases [of errorType] by auto
  have "Some Redirect \<notin> set (map errorConvention (fst (getResolvedMetadata env t q g x s p errorType)))"
  proof -
    have "errorConvention (resolve_pass t (s q) g x p
            (if errorType = Some Redirect then None else errorType)) \<noteq> Some Redirect"
      by simp
    moreover have "errorConvention (resolve_pass t (s q) g x p (Some NotFound)) \<noteq> Some Redirect"
      by simp
    ultimately show ?thesis
      using getResolvedMetadata_calls [of env t q g x s p errorType]
      by (elim disjE) (simp_all only: list.map list.set insert_iff empty_iff, simp_all)
  qed
  with first show ?thesis
    by (rule conjI)
qed

theorem errorConvention_of_errorType_witness:
  "map errorConvention (take 1 (fst (getResolvedMetadata demo_env ''/blog'' [] () () id ()
      (Some Redirect)))) = [None]
   \<and> map errorConvention (take 1 (fst (getResolvedMetadata demo_env ''/blog'' [] () () id ()
      (Some NotFound)))) = [Some NotFound]
   \<and> map errorConvention (take 1 (fst (getResolvedMetadata demo_env ''/blog'' [] () () id ()
      None))) = [None]"
  using errorConvention_of_errorType [of demo_env "''/blog''" "[]" "()" "()" id "()" "Some Redirect"]
    errorConvention_of_errorType [of demo_env "''/blog''" "[]" "()" "()" id "()" "Some NotFound"]
    errorConvention_of_errorType [of demo_env "''/blog''" "[]" "()" "()" id "()" None]
  by simp

section \<open>Runs of the two components\<close>

lemma resolution_not_Pending [simp]: "resolution env cfg \<noteq> Pending"
  by (simp add: resolution_def split: sum.split)

lemma run_Nil [simp]: "run env cfg [] s = s"
  by (simp add: run_def)

lemma run_Cons [simp]: "run env cfg (e # es) s = run env cfg es (step env cfg e s)"
  by (simp add: run_def)

lemma run_append: "run env cfg (es @ es') s = run env cfg es' (run env cfg es s)"
  by (simp add: run_def)

lemma run_snoc: "run env cfg (es @ [e]) s = step env cfg e (run env cfg es s)"
  by (simp add: run_def)

text \<open>The four things a step can do to a frame that exists.\<close>

lemma run_job_frame:
  assumes "h < length (frames s)"
  shows "length (frames (run_job cfg j s)) = length (frames s) \<and>
         (frames (run_job cfg j s) ! h = frames s ! h
          \<or> frames (run_job cfg j s) ! h = metadataReady_then (frames s ! h)
          \<or> frames (run_job cfg j s) ! h = MetadataTree_resume cfg (frames s ! h))"
proof (cases j)
  case (Then_pendingMetadata h')
  with assms show ?thesis by (cases "h = h'") simp_all
next
  case (Await_pendingMetadata h')
  with assms show ?thesis by (cases "h = h'") simp_all
next
  case (Then_getMetadataReady k)
  then show ?thesis by simp
qed

lemma step_frame:
  assumes "h < length (frames s)"
  shows "h < length (frames (step env cfg e s)) \<and>
         (frames (step env cfg e s) ! h = frames s ! h
          \<or> pendingMetadata (frames s ! h) = Pending \<and>
            frames (step env cfg e s) ! h = (frames s ! h)\<lparr>pendingMetadata := resolution env cfg\<rparr>
          \<or> frames (step env cfg e s) ! h = metadataReady_then (frames s ! h)
          \<or> frames (step env cfg e s) ! h = MetadataTree_resume cfg (frames s ! h))"
proof (cases e)
  case Call_MetadataTree
  with assms show ?thesis
    by (simp add: MetadataTree_call_def Let_def nth_append)
next
  case Call_getMetadataReady
  with assms show ?thesis
    by (simp add: getMetadataReady_call_def)
next
  case (Settle_pendingMetadata h')
  with assms show ?thesis
    by (cases "h = h'") (simp_all add: pendingMetadata_settles_def)
next
  case Run_microtask
  show ?thesis
  proof (cases "microtasks s")
    case Nil
    with Run_microtask assms show ?thesis by simp
  next
    case (Cons j q)
    with Run_microtask assms run_job_frame [of h "s\<lparr>microtasks := q\<rparr>" cfg j] show ?thesis
      by auto
  qed
qed

text \<open>The fields of a frame after the \<open>then\<close> callbacks and after the resumption.\<close>

lemma metadataReady_then_fields [simp]:
  "pendingMetadata (metadataReady_then f) = pendingMetadata f"
  "returned (metadataReady_then f) = returned f"
  "status (metadataReady_then f) =
     (case pendingMetadata f of
        Pending \<Rightarrow> status f
      | Fulfilled outcome \<Rightarrow> if truthy (fst outcome) then Some ''rejected'' else Some ''fulfilled''
      | Rejected reason \<Rightarrow> Some ''rejected'')"
  "ready_value (metadataReady_then f) =
     (case pendingMetadata f of
        Pending \<Rightarrow> ready_value f
      | Fulfilled outcome \<Rightarrow> if truthy (fst outcome) then fst outcome else JSUndefined
      | Rejected reason \<Rightarrow> reason)"
  "metadataReady (metadataReady_then f) =
     (case pendingMetadata f of
        Pending \<Rightarrow> metadataReady f
      | Fulfilled outcome \<Rightarrow>
          if truthy (fst outcome) then Rejected (fst outcome) else Fulfilled JSUndefined
      | Rejected reason \<Rightarrow> Rejected reason)"
  by (simp_all add: metadataReady_then_def split: promise_state.split prod.split)

lemma MetadataTree_resume_fields [simp]:
  "pendingMetadata (MetadataTree_resume cfg f) = pendingMetadata f"
  "status (MetadataTree_resume cfg f) = status f"
  "ready_value (MetadataTree_resume cfg f) = ready_value f"
  "metadataReady (MetadataTree_resume cfg f) = metadataReady f"
  "returned (MetadataTree_resume cfg f) =
     (case pendingMetadata f of
        Pending \<Rightarrow> returned f
      | Fulfilled outcome \<Rightarrow>
          Fulfilled (MetadataTree_render (cfg_appUsingSizeAdjustment cfg) (snd outcome))
      | Rejected reason \<Rightarrow> Rejected reason)"
  by (simp_all add: MetadataTree_resume_def split: promise_state.split prod.split)

lemma frame_consistent_then:
  "frame_consistent env cfg f \<Longrightarrow> frame_consistent env cfg (metadataReady_then f)"
  by (cases "resolution env cfg"; cases "pendingMetadata f") (auto simp add: frame_consistent_def)

lemma frame_consistent_resume:
  "frame_consistent env cfg f \<Longrightarrow> frame_consistent env cfg (MetadataTree_resume cfg f)"
  by (cases "resolution env cfg"; cases "pendingMetadata f") (auto simp add: frame_consistent_def)

lemma frame_consistent_settle:
  "frame_consistent env cfg f \<Longrightarrow> pendingMetadata f = Pending \<Longrightarrow>
   frame_consistent env cfg (f\<lparr>pendingMetadata := resolution env cfg\<rparr>)"
  by (auto simp add: frame_consistent_def metadataReady_then_def MetadataTree_resume_def)

lemma frame_consistent_step:
  assumes "h < length (frames s)" and "frame_consistent env cfg (frames s ! h)"
  shows "frame_consistent env cfg (frames (step env cfg e s) ! h)"
  using step_frame [OF assms(1), of env cfg e] assms(2)
  by (auto simp add: frame_consistent_then frame_consistent_resume frame_consistent_settle)

lemma new_frame:
  "frames (step env cfg e s) = frames s \<or> length (frames (step env cfg e s)) = length (frames s)
   \<or> frames (step env cfg e s) = frames s @
        [\<lparr>pendingMetadata = Pending, metadataReady = Pending, status = Some ''pending'',
          ready_value = JSUndefined, returned = Pending\<rparr>]"
proof (cases e)
  case Call_MetadataTree
  then show ?thesis by (simp add: MetadataTree_call_def Let_def)
next
  case Call_getMetadataReady
  then show ?thesis by (simp add: getMetadataReady_call_def)
next
  case (Settle_pendingMetadata h')
  then show ?thesis by (simp add: pendingMetadata_settles_def)
next
  case Run_microtask
  then show ?thesis 
  proof (cases "microtasks s")
    case Nil
    with Run_microtask show ?thesis by simp
  next
    case (Cons j q)
    with Run_microtask show ?thesis by (cases j) simp_all
  qed
qed

lemma frames_consistent_step:
  assumes "\<forall>h < length (frames s). frame_consistent env cfg (frames s ! h)"
  shows "\<forall>h < length (frames (step env cfg e s)). frame_consistent env cfg (frames (step env cfg e s) ! h)"
proof (intro allI impI)
  fix h assume h: "h < length (frames (step env cfg e s))"
  show "frame_consistent env cfg (frames (step env cfg e s) ! h)"
  proof (cases "h < length (frames s)")
    case True
    with assms show ?thesis by (simp add: frame_consistent_step)
  next
    case False
    with h new_frame [of env cfg e s]
    have "frames (step env cfg e s) = frames s @
        [\<lparr>pendingMetadata = Pending, metadataReady = Pending, status = Some ''pending'',
          ready_value = JSUndefined, returned = Pending\<rparr>]" and "h = length (frames s)"
      by auto
    then show ?thesis
      by (simp add: frame_consistent_def)
  qed
qed

lemma reachable_frames_consistent:
  "h < length (frames (run env cfg events createMetadataComponents)) \<Longrightarrow>
   frame_consistent env cfg (frames (run env cfg events createMetadataComponents) ! h)"
proof (induction events arbitrary: h rule: rev_induct)
  case Nil
  then show ?case by (simp add: createMetadataComponents_def)
next
  case (snoc e events)
  then show ?case
    using frames_consistent_step [of "run env cfg events createMetadataComponents" env cfg e]
    by (simp add: run_snoc)
qed


lemma reachable_pendingMetadata:
  assumes "h < length (frames (run env cfg events createMetadataComponents))"
  shows "pendingMetadata (frames (run env cfg events createMetadataComponents) ! h) = Pending
         \<or> pendingMetadata (frames (run env cfg events createMetadataComponents) ! h) = resolution env cfg"
  using reachable_frames_consistent [OF assms] by (simp add: frame_consistent_def)

text \<open>Running the jobs that wait in front of the queue.\<close>

lemma run_job_others [simp]:
  "length (frames (run_job cfg j s)) = length (frames s)"
  "currentMetadataReady (run_job cfg j s) = currentMetadataReady s"
  "length (outlets (run_job cfg j s)) = length (outlets s)"
  "microtasks (run_job cfg j s) = microtasks s"
  by (cases j; simp)+

lemma run_job_pendingMetadata:
  "h < length (frames s) \<Longrightarrow>
   pendingMetadata (frames (run_job cfg j s) ! h) = pendingMetadata (frames s ! h)"
  using run_job_frame [of h s cfg j] by auto

lemma run_job_consistent:
  "h < length (frames s) \<Longrightarrow> frame_consistent env cfg (frames s ! h) \<Longrightarrow>
   frame_consistent env cfg (frames (run_job cfg j s) ! h)"
  using run_job_frame [of h s cfg j]
  by (auto simp add: frame_consistent_then frame_consistent_resume)

lemma replicate_Suc_snoc: "replicate (Suc n) x = replicate n x @ [x]"
  by (simp add: replicate_append_same)

lemma run_queue_prefix:
  assumes "microtasks s = q @ rest" and "h < length (frames s)"
    and "frame_consistent env cfg (frames s ! h)"
  shows "microtasks (run env cfg (replicate (length q) Run_microtask) s) = rest \<and>
         length (frames (run env cfg (replicate (length q) Run_microtask) s)) = length (frames s) \<and>
         pendingMetadata (frames (run env cfg (replicate (length q) Run_microtask) s) ! h) =
           pendingMetadata (frames s ! h) \<and>
         frame_consistent env cfg (frames (run env cfg (replicate (length q) Run_microtask) s) ! h)"
  using assms
proof (induction q arbitrary: s)
  case Nil
  then show ?case by simp
next
  case (Cons j q)
  let ?s = "run_job cfg j (s\<lparr>microtasks := q @ rest\<rparr>)"
  have step: "step env cfg Run_microtask s = ?s"
    using Cons.prems(1) by simp
  have "microtasks ?s = q @ rest" and "h < length (frames ?s)"
    using Cons.prems(2) by simp_all
  moreover have "frame_consistent env cfg (frames ?s ! h)"
    using Cons.prems(2,3) by (simp add: run_job_consistent)
  ultimately have "microtasks (run env cfg (replicate (length q) Run_microtask) ?s) = rest \<and>
         length (frames (run env cfg (replicate (length q) Run_microtask) ?s)) = length (frames ?s) \<and>
         pendingMetadata (frames (run env cfg (replicate (length q) Run_microtask) ?s) ! h) =
           pendingMetadata (frames ?s ! h) \<and>
         frame_consistent env cfg (frames (run env cfg (replicate (length q) Run_microtask) ?s) ! h)"
    by (rule Cons.IH)
  moreover have "pendingMetadata (frames ?s ! h) = pendingMetadata (frames s ! h)"
    using Cons.prems(2) by (simp add: run_job_pendingMetadata)
  ultimately show ?case
    using step by simp
qed

text \<open>
  From a frame whose resolution is still pending: the resolution settles, the
  jobs already waiting run, and then the two reactions of the frame run.
\<close>

lemma settle_then_callbacks:
  assumes "h < length (frames s)" and "pendingMetadata (frames s ! h) = Pending"
    and "frame_consistent env cfg (frames s ! h)"
  shows "\<exists>f. pendingMetadata f = resolution env cfg \<and>
           frames (run env cfg (Settle_pendingMetadata h #
              replicate (Suc (length (microtasks s))) Run_microtask) s) ! h = metadataReady_then f \<and>
           frames (run env cfg (Settle_pendingMetadata h #
              replicate (Suc (Suc (length (microtasks s)))) Run_microtask) s) ! h =
             MetadataTree_resume cfg (metadataReady_then f)"
proof -
  let ?s1 = "pendingMetadata_settles env cfg h s"
  let ?s2 = "run env cfg (replicate (length (microtasks s)) Run_microtask) ?s1"
  have q1: "microtasks ?s1 = microtasks s @ [Then_pendingMetadata h, Await_pendingMetadata h]"
    and h1: "h < length (frames ?s1)"
    and p1: "pendingMetadata (frames ?s1 ! h) = resolution env cfg"
    using assms(1,2) by (simp_all add: pendingMetadata_settles_def)
  have c1: "frame_consistent env cfg (frames ?s1 ! h)"
    using assms by (simp add: pendingMetadata_settles_def frame_consistent_settle)
  from run_queue_prefix [OF q1 h1 c1]
  have q2: "microtasks ?s2 = [Then_pendingMetadata h, Await_pendingMetadata h]"
    and h2: "h < length (frames ?s2)"
    and p2: "pendingMetadata (frames ?s2 ! h) = resolution env cfg"
    using h1 p1 by simp_all
  let ?s3 = "step env cfg Run_microtask ?s2"
  have f3: "frames ?s3 ! h = metadataReady_then (frames ?s2 ! h)"
    and q3: "microtasks ?s3 = [Await_pendingMetadata h]"
    and h3: "h < length (frames ?s3)"
    using q2 h2 by simp_all
  let ?s4 = "step env cfg Run_microtask ?s3"
  have f4: "frames ?s4 ! h = MetadataTree_resume cfg (metadataReady_then (frames ?s2 ! h))"
    using q3 h3 f3 by simp
  have r3: "run env cfg (Settle_pendingMetadata h #
              replicate (Suc (length (microtasks s))) Run_microtask) s = ?s3"
    by (simp only: replicate_Suc_snoc run_Cons run_append step.simps run_Nil)
  have r4: "run env cfg (Settle_pendingMetadata h #
              replicate (Suc (Suc (length (microtasks s)))) Run_microtask) s = ?s4"
    by (simp only: replicate_Suc_snoc run_Cons run_append step.simps run_Nil append_assoc)
  show ?thesis
    using p2 f3 f4 r3 r4 by metis
qed

section \<open>The readiness state and the head unit\<close>

lemma demo_resolution_not_found:
  "resolution demo_env (demo_args None adj) =
     Fulfilled (JSError ''NEXT_NOT_FOUND'',
       [meta_element ''viewport'' ''width=device-width'',
        meta_element ''twitter:title'' ''Not Found''])"
  by (simp add: resolution_def demo_args_def getResolvedMetadata_def Let_def demo_env_def
      resolve_pass_def createMetadataElements_def demo_metadata_def demo_builder_def)

lemma demo_resolution_ok:
  "resolution demo_env (demo_args (Some NotFound) adj) =
     Fulfilled (JSNull,
       [meta_element ''viewport'' ''width=device-width'',
        meta_element ''twitter:title'' ''Not Found''])"
  by (simp add: resolution_def demo_args_def getResolvedMetadata_def Let_def demo_env_def
      resolve_pass_def createMetadataElements_def demo_metadata_def demo_builder_def)

lemma demo_args_appUsingSizeAdjustment [simp]:
  "cfg_appUsingSizeAdjustment (demo_args errorType adj) = adj"
  by (simp add: demo_args_def)

text \<open>
  C5. In every state a run reaches, the \<open>status\<close> of every \<open>metadataReady\<close> is
  \<open>'pending'\<close> (with \<open>value\<close> unset) or the settled one: \<open>'fulfilled'\<close> with value
  \<open>undefined\<close> when the resolution fulfilled with a falsy error, \<open>'rejected'\<close> with
  the error as value when it fulfilled with a truthy error or rejected. It is
  \<open>'pending'\<close> from the call of \<open>MetadataTree\<close> on and as long as the resolution
  has not settled, so before any continuation can run; once it is not
  \<open>'pending'\<close> no step changes \<open>status\<close> or \<open>value\<close> again; and when the
  resolution settles and the jobs queued up to the \<open>then\<close> callbacks have run, it
  is the settled one, which is not \<open>'pending'\<close>.
\<close>

theorem readiness_status_transitions:
  fixes env :: "('t, 'g, 'x, 'p, 'f, 'v, 'i) collaborators"
    and cfg :: "('t, 'g, 'x, 'p) components_args"
    and events :: "event list"
    and s :: state
    and settled :: "string option \<times> jsval"
  defines "s \<equiv> run env cfg events createMetadataComponents"
    and "settled \<equiv>
      (case resolution env cfg of
         Fulfilled outcome \<Rightarrow>
           if truthy (fst outcome) then (Some ''rejected'', fst outcome)
           else (Some ''fulfilled'', JSUndefined)
       | Rejected reason \<Rightarrow> (Some ''rejected'', reason)
       | Pending \<Rightarrow> (Some ''pending'', JSUndefined))"
  assumes h: "h < length (frames s)"
  shows "((status (frames s ! h), ready_value (frames s ! h)) = (Some ''pending'', JSUndefined)
          \<or> (status (frames s ! h), ready_value (frames s ! h)) = settled)
       \<and> (pendingMetadata (frames s ! h) = Pending \<longrightarrow> status (frames s ! h) = Some ''pending'')
       \<and> (\<forall>e. status (frames s ! h) \<noteq> Some ''pending'' \<longrightarrow>
             status (frames (step env cfg e s) ! h) = status (frames s ! h) \<and>
             ready_value (frames (step env cfg e s) ! h) = ready_value (frames s ! h))
       \<and> (pendingMetadata (frames s ! h) = Pending \<longrightarrow>
             (let s' = run env cfg (Settle_pendingMetadata h #
                         replicate (Suc (length (microtasks s))) Run_microtask) s
              in (status (frames s' ! h), ready_value (frames s' ! h)) = settled) \<and>
             fst settled \<noteq> Some ''pending'')
       \<and> status (frames (step env cfg Call_MetadataTree s) ! length (frames s)) = Some ''pending''"
proof -
  let ?f = "frames s ! h"
  have c: "frame_consistent env cfg ?f"
    using h unfolding s_def by (rule reachable_frames_consistent)
  have fields: "pendingMetadata f = resolution env cfg \<Longrightarrow>
      (status (metadataReady_then f), ready_value (metadataReady_then f)) = settled" for f
    unfolding settled_def by (cases "resolution env cfg") simp_all
  have a: "(status ?f, ready_value ?f) = (Some ''pending'', JSUndefined)
          \<or> (status ?f, ready_value ?f) = settled"
    using c fields [of ?f] by (auto simp add: frame_consistent_def)
  have b: "pendingMetadata ?f = Pending \<longrightarrow> status ?f = Some ''pending''"
    using c by (auto simp add: frame_consistent_def)
  have c': "status ?f \<noteq> Some ''pending'' \<longrightarrow>
             status (frames (step env cfg e s) ! h) = status ?f \<and>
             ready_value (frames (step env cfg e s) ! h) = ready_value ?f" for e
    using step_frame [OF h, of env cfg e] c
    by (auto simp add: frame_consistent_def)
  have d: "pendingMetadata ?f = Pending \<longrightarrow>
             (let s' = run env cfg (Settle_pendingMetadata h #
                         replicate (Suc (length (microtasks s))) Run_microtask) s
              in (status (frames s' ! h), ready_value (frames s' ! h)) = settled) \<and>
             fst settled \<noteq> Some ''pending''"
  proof
    assume p: "pendingMetadata ?f = Pending"
    from settle_then_callbacks [OF h p c]
    obtain f where f: "pendingMetadata f = resolution env cfg"
      and "frames (run env cfg (Settle_pendingMetadata h #
              replicate (Suc (length (microtasks s))) Run_microtask) s) ! h = metadataReady_then f"
      by blast
    moreover have "fst settled \<noteq> Some ''pending''"
      unfolding settled_def by (cases "resolution env cfg") simp_all
    ultimately show "(let s' = run env cfg (Settle_pendingMetadata h #
                         replicate (Suc (length (microtasks s))) Run_microtask) s
              in (status (frames s' ! h), ready_value (frames s' ! h)) = settled) \<and>
             fst settled \<noteq> Some ''pending''"
      using fields [OF f] by (simp add: Let_def)
  qed
  have e: "status (frames (step env cfg Call_MetadataTree s) ! length (frames s)) = Some ''pending''"
    by (simp add: MetadataTree_call_def Let_def)
  from a b c' d e show ?thesis
    by blast
qed

theorem readiness_status_transitions_witness:
  "status (frames (run demo_env (demo_args None False) [Call_MetadataTree]
             createMetadataComponents) ! 0) = Some ''pending''
   \<and> (let s' = run demo_env (demo_args None False)
                  [Call_MetadataTree, Settle_pendingMetadata 0, Run_microtask]
                  createMetadataComponents
      in (status (frames s' ! 0), ready_value (frames s' ! 0)) =
           (Some ''rejected'', JSError ''NEXT_NOT_FOUND''))"
proof -
  have "0 < length (frames (run demo_env (demo_args None False) [Call_MetadataTree]
                      createMetadataComponents))"
    by (simp add: createMetadataComponents_def MetadataTree_call_def)
  from readiness_status_transitions [OF this]
  show ?thesis
    by (simp add: createMetadataComponents_def MetadataTree_call_def pendingMetadata_settles_def
        demo_resolution_not_found Let_def)
qed

text \<open>How a frame stands once its resolution has settled and its two reactions have run.\<close>

lemma MetadataTree_settles:
  fixes env :: "('t, 'g, 'x, 'p, 'f, 'v, 'i) collaborators"
    and cfg :: "('t, 'g, 'x, 'p) components_args"
    and events :: "event list"
    and h :: nat
    and s s' :: state
  defines "s \<equiv> run env cfg events createMetadataComponents"
    and "s' \<equiv> run env cfg (Settle_pendingMetadata h #
           replicate (Suc (Suc (length (microtasks s)))) Run_microtask) s"
  assumes h: "h < length (frames s)" and p: "pendingMetadata (frames s ! h) = Pending"
  shows "returned (frames s' ! h) =
           (case resolution env cfg of
              Fulfilled outcome \<Rightarrow>
                Fulfilled (MetadataTree_render (cfg_appUsingSizeAdjustment cfg) (snd outcome))
            | Rejected reason \<Rightarrow> Rejected reason
            | Pending \<Rightarrow> Pending)
       \<and> metadataReady (frames s' ! h) =
           (case resolution env cfg of
              Fulfilled outcome \<Rightarrow>
                if truthy (fst outcome) then Rejected (fst outcome) else Fulfilled JSUndefined
            | Rejected reason \<Rightarrow> Rejected reason
            | Pending \<Rightarrow> Pending)"
proof -
  have "frame_consistent env cfg (frames s ! h)"
    using h unfolding s_def by (rule reachable_frames_consistent)
  from settle_then_callbacks [OF h p this]
  obtain f where f: "pendingMetadata f = resolution env cfg"
    and "frames s' ! h = MetadataTree_resume cfg (metadataReady_then f)"
    unfolding s'_def by blast
  then show ?thesis
    by (cases "resolution env cfg") simp_all
qed

text \<open>
  On every outcome \<open>(error, elements)\<close> the resolution fulfils with, one with an
  error included, the promise \<open>MetadataTree\<close> returned is never rejected: it is
  pending or fulfilled with the fragment rendered from \<open>elements\<close>, and it is
  fulfilled once the resolution has settled and the jobs queued up to the
  continuation of the \<open>await\<close> have run. The error goes to \<open>metadataReady\<close>, which
  is then rejected with a truthy error and fulfilled with \<open>undefined\<close> otherwise,
  and with it to every promise of \<open>getMetadataReady\<close> that follows it.
\<close>

lemma MetadataTree_fulfils_on_outcome:
  fixes env :: "('t, 'g, 'x, 'p, 'f, 'v, 'i) collaborators"
    and cfg :: "('t, 'g, 'x, 'p) components_args"
    and events :: "event list"
    and h :: nat
    and s s' :: state
  defines "s \<equiv> run env cfg events createMetadataComponents"
    and "s' \<equiv> run env cfg (Settle_pendingMetadata h #
           replicate (Suc (Suc (length (microtasks s)))) Run_microtask) s"
  assumes outcome: "resolution env cfg = Fulfilled (error, elements)"
    and h: "h < length (frames s)"
  shows "(returned (frames s ! h) = Pending
          \<or> returned (frames s ! h) =
              Fulfilled (MetadataTree_render (cfg_appUsingSizeAdjustment cfg) elements))
       \<and> (pendingMetadata (frames s ! h) = Pending \<longrightarrow>
            returned (frames s' ! h) =
              Fulfilled (MetadataTree_render (cfg_appUsingSizeAdjustment cfg) elements) \<and>
            metadataReady (frames s' ! h) =
              (if truthy error then Rejected error else Fulfilled JSUndefined) \<and>
            (\<forall>k. outlets s' ! k = Follows h \<longrightarrow>
               getMetadataReady_promise s' k =
                 (if truthy error then Rejected error else Fulfilled JSUndefined)))"
proof -
  have "frame_consistent env cfg (frames s ! h)"
    using h unfolding s_def by (rule reachable_frames_consistent)
  then have a: "returned (frames s ! h) = Pending
          \<or> returned (frames s ! h) =
              Fulfilled (MetadataTree_render (cfg_appUsingSizeAdjustment cfg) elements)"
    using outcome by (auto simp add: frame_consistent_def)
  have b: "pendingMetadata (frames s ! h) = Pending \<longrightarrow>
            returned (frames s' ! h) =
              Fulfilled (MetadataTree_render (cfg_appUsingSizeAdjustment cfg) elements) \<and>
            metadataReady (frames s' ! h) =
              (if truthy error then Rejected error else Fulfilled JSUndefined) \<and>
            (\<forall>k. outlets s' ! k = Follows h \<longrightarrow>
               getMetadataReady_promise s' k =
                 (if truthy error then Rejected error else Fulfilled JSUndefined))"
  proof
    assume p: "pendingMetadata (frames s ! h) = Pending"
    from MetadataTree_settles [of h env cfg events] h p outcome
    have "returned (frames s' ! h) =
              Fulfilled (MetadataTree_render (cfg_appUsingSizeAdjustment cfg) elements)"
      and "metadataReady (frames s' ! h) =
              (if truthy error then Rejected error else Fulfilled JSUndefined)"
      by (simp_all add: s_def s'_def)
    then show "returned (frames s' ! h) =
              Fulfilled (MetadataTree_render (cfg_appUsingSizeAdjustment cfg) elements) \<and>
            metadataReady (frames s' ! h) =
              (if truthy error then Rejected error else Fulfilled JSUndefined) \<and>
            (\<forall>k. outlets s' ! k = Follows h \<longrightarrow>
               getMetadataReady_promise s' k =
                 (if truthy error then Rejected error else Fulfilled JSUndefined))"
      by (simp add: getMetadataReady_promise_def)
  qed
  from a b show ?thesis
    by (rule conjI)
qed

lemma demo_resolution_rejects:
  "resolution demo_rejecting_env (demo_args errorType adj) = Rejected (JSError ''boom'')"
  by (simp add: resolution_def getResolvedMetadata_def Let_def demo_rejecting_env_def)

text \<open>
  C6, on the code. The promise of \<open>getResolvedMetadata\<close> can also reject (a resolver
  promise rejects), the failure the rejection callback of lines 134 to 138 is
  there for. Then \<open>status\<close> and \<open>value\<close> are set and \<open>metadataReady\<close> rejects, but
  the \<open>await\<close> of line 148 rethrows the reason: the promise \<open>MetadataTree\<close>
  returned rejects with it, where the comments of lines 80 to 81 and 146 to 147
  have the head render and the error ignored there.
\<close>

theorem MetadataTree_rethrows_rejection:
  fixes env :: "('t, 'g, 'x, 'p, 'f, 'v, 'i) collaborators"
    and cfg :: "('t, 'g, 'x, 'p) components_args"
    and events :: "event list"
    and h :: nat
    and s s' :: state
  defines "s \<equiv> run env cfg events createMetadataComponents"
    and "s' \<equiv> run env cfg (Settle_pendingMetadata h #
           replicate (Suc (Suc (length (microtasks s)))) Run_microtask) s"
  assumes rejects: "resolution env cfg = Rejected reason"
    and h: "h < length (frames s)" and p: "pendingMetadata (frames s ! h) = Pending"
  shows "returned (frames s' ! h) = Rejected reason
       \<and> status (frames s' ! h) = Some ''rejected''
       \<and> ready_value (frames s' ! h) = reason
       \<and> metadataReady (frames s' ! h) = Rejected reason"
proof -
  have "frame_consistent env cfg (frames s ! h)"
    using h unfolding s_def by (rule reachable_frames_consistent)
  from settle_then_callbacks [OF h p this]
  obtain f where f: "pendingMetadata f = resolution env cfg"
    and "frames s' ! h = MetadataTree_resume cfg (metadataReady_then f)"
    unfolding s'_def by blast
  with rejects show ?thesis
    by simp
qed

theorem MetadataTree_rethrows_rejection_witness:
  "returned (frames (run demo_rejecting_env (demo_args None False)
      [Call_MetadataTree, Settle_pendingMetadata 0, Run_microtask, Run_microtask]
      createMetadataComponents) ! 0) = Rejected (JSError ''boom'')"
proof -
  have h: "0 < length (frames (run demo_rejecting_env (demo_args None False) [Call_MetadataTree]
      createMetadataComponents))"
    and p: "pendingMetadata (frames (run demo_rejecting_env (demo_args None False)
      [Call_MetadataTree] createMetadataComponents) ! 0) = Pending"
    by (simp_all add: createMetadataComponents_def MetadataTree_call_def Let_def)
  from MetadataTree_rethrows_rejection [OF demo_resolution_rejects h p]
  show ?thesis
    by (simp add: createMetadataComponents_def MetadataTree_call_def Let_def)
qed

text \<open>What React emits for the fragment of lines 150 to 157.\<close>

lemma rendered_keyed_elements:
  "concat (map (rendered_elements \<circ> (\<lambda>(index, el). NodeElement (cloneElement el index))) xs) =
     map (\<lambda>(index, el). cloneElement el index) xs"
  by (induction xs) auto

lemma rendered_MetadataTree_render:
  "rendered_elements (MetadataTree_render appUsingSizeAdjustment elements) =
     map (\<lambda>(index, el). cloneElement el index) (enumerate 0 elements) @
     (if appUsingSizeAdjustment
      then [\<lparr>tag = ''meta'', key = None, props = [(''name'', ''next-size-adjust'')]\<rparr>]
      else [])"
  by (simp add: MetadataTree_render_def rendered_keyed_elements)

text \<open>
  C7. When the first resolver pass returns no error, whatever \<open>MetadataTree\<close>
  fulfils with renders exactly the elements of \<open>createMetadataElements\<close>, in order,
  each a copy with its index as key, followed by one \<open>meta\<close> tag named
  \<open>next-size-adjust\<close> if and only if \<open>appUsingSizeAdjustment\<close> is true.
\<close>

theorem MetadataTree_renders_keyed_elements:
  fixes env :: "('t, 'g, 'x, 'p, 'f, 'v, 'i) collaborators"
    and cfg :: "('t, 'g, 'x, 'p) components_args"
    and events :: "event list"
    and s :: state
    and metadata :: "'f ResolvedMetadata"
    and viewport :: 'v
    and elements :: "react_element list"
  defines "s \<equiv> run env cfg events createMetadataComponents"
    and "elements \<equiv> createMetadataElements env metadata viewport"
  assumes first: "resolveMetadata env
        (resolve_pass (cfg_tree cfg)
           (cfg_createDynamicallyTrackedSearchParams cfg (cfg_query cfg))
           (cfg_getDynamicParamFromSegment cfg) (cfg_metadataContext cfg)
           (cfg_createDynamicallyTrackedParams cfg)
           (if cfg_errorType cfg = Some Redirect then None else cfg_errorType cfg)) =
        Inr (error, metadata, viewport)"
    and ok: "\<not> truthy error"
    and h: "h < length (frames s)"
    and fulfilled: "returned (frames s ! h) = Fulfilled node"
  shows "rendered_elements node =
           map (\<lambda>(index, el). el\<lparr>key := Some index\<rparr>) (enumerate 0 elements) @
           (if cfg_appUsingSizeAdjustment cfg
            then [\<lparr>tag = ''meta'', key = None, props = [(''name'', ''next-size-adjust'')]\<rparr>]
            else [])
       \<and> length (rendered_elements node) =
           length elements + (if cfg_appUsingSizeAdjustment cfg then 1 else 0)
       \<and> (\<forall>i < length elements. rendered_elements node ! i = (elements ! i)\<lparr>key := Some i\<rparr>)"
proof -
  have "resolution env cfg = Fulfilled (JSNull, elements)"
    using first ok
    by (simp add: resolution_def getResolvedMetadata_def Let_def elements_def)
  with reachable_frames_consistent [of h env cfg events] h fulfilled
  have "node = MetadataTree_render (cfg_appUsingSizeAdjustment cfg) elements"
    by (auto simp add: s_def frame_consistent_def)
  then have r: "rendered_elements node =
           map (\<lambda>(index, el). el\<lparr>key := Some index\<rparr>) (enumerate 0 elements) @
           (if cfg_appUsingSizeAdjustment cfg
            then [\<lparr>tag = ''meta'', key = None, props = [(''name'', ''next-size-adjust'')]\<rparr>]
            else [])"
    by (simp add: rendered_MetadataTree_render cloneElement_def)
  then show ?thesis
    by (simp add: nth_append nth_enumerate_eq)
qed

theorem MetadataTree_renders_keyed_elements_witness:
  "returned (frames (run demo_env (demo_args (Some NotFound) True)
      [Call_MetadataTree, Settle_pendingMetadata 0, Run_microtask, Run_microtask]
      createMetadataComponents) ! 0) =
     Fulfilled (MetadataTree_render True
       [meta_element ''viewport'' ''width=device-width'',
        meta_element ''twitter:title'' ''Not Found''])
   \<and> rendered_elements (MetadataTree_render True
       [meta_element ''viewport'' ''width=device-width'',
        meta_element ''twitter:title'' ''Not Found'']) =
     [(meta_element ''viewport'' ''width=device-width'')\<lparr>key := Some 0\<rparr>,
      (meta_element ''twitter:title'' ''Not Found'')\<lparr>key := Some 1\<rparr>,
      \<lparr>tag = ''meta'', key = None, props = [(''name'', ''next-size-adjust'')]\<rparr>]"
proof -
  let ?cfg = "demo_args (Some NotFound) True"
  let ?s = "run demo_env ?cfg
      [Call_MetadataTree, Settle_pendingMetadata 0, Run_microtask, Run_microtask]
      createMetadataComponents"
  have first: "resolveMetadata demo_env
        (resolve_pass (cfg_tree ?cfg)
           (cfg_createDynamicallyTrackedSearchParams ?cfg (cfg_query ?cfg))
           (cfg_getDynamicParamFromSegment ?cfg) (cfg_metadataContext ?cfg)
           (cfg_createDynamicallyTrackedParams ?cfg)
           (if cfg_errorType ?cfg = Some Redirect then None else cfg_errorType ?cfg)) =
        Inr (JSUndefined, demo_metadata\<lparr>twitter := Some ''Not Found''\<rparr>, ''width=device-width'')"
    by (simp add: demo_args_def demo_env_def resolve_pass_def)
  have ok: "\<not> truthy JSUndefined"
    by simp
  have h: "0 < length (frames ?s)"
    by (simp add: createMetadataComponents_def MetadataTree_call_def pendingMetadata_settles_def
        Let_def)
  have fulfilled: "returned (frames ?s ! 0) =
     Fulfilled (MetadataTree_render True
       [meta_element ''viewport'' ''width=device-width'',
        meta_element ''twitter:title'' ''Not Found''])"
    by (simp add: createMetadataComponents_def MetadataTree_call_def pendingMetadata_settles_def
        demo_resolution_ok Let_def)
  have elements: "createMetadataElements demo_env (demo_metadata\<lparr>twitter := Some ''Not Found''\<rparr>)
      ''width=device-width'' =
     [meta_element ''viewport'' ''width=device-width'', meta_element ''twitter:title'' ''Not Found'']"
    by (simp add: createMetadataElements_def demo_env_def demo_metadata_def demo_builder_def)
  from MetadataTree_renders_keyed_elements [OF first ok h fulfilled] fulfilled
  show ?thesis
    by (simp add: elements enumerate_simps)
qed


section \<open>The fault outlet\<close>

text \<open>The invariant of the waiting callbacks holds in every state a run reaches.\<close>

lemma waiting_callbacks_append [simp]:
  "waiting_callbacks (q @ q') = waiting_callbacks q @ waiting_callbacks q'"
  by (induction q rule: waiting_callbacks.induct) simp_all

lemma outlets_consistent_run_job:
  assumes "outlets_consistent s" and "microtasks s = j # q"
  shows "outlets_consistent (run_job cfg j (s\<lparr>microtasks := q\<rparr>))"
proof (cases j)
  case (Then_pendingMetadata h)
  with assms show ?thesis by (simp add: outlets_consistent_def)
next
  case (Await_pendingMetadata h)
  with assms show ?thesis by (simp add: outlets_consistent_def)
next
  case (Then_getMetadataReady k)
  with assms have d: "k \<notin> set (waiting_callbacks q)" "distinct (waiting_callbacks q)"
    and w: "insert k (set (waiting_callbacks q)) =
      {k. k < length (outlets s) \<and> outlets s ! k = Scheduled}"
    by (simp_all add: outlets_consistent_def)
  from w have k: "k < length (outlets s)"
    by blast
  have callback: "getMetadataReady_then (currentMetadataReady s) \<noteq> Scheduled"
    by (simp add: getMetadataReady_then_def split: option.split)
  have "set (waiting_callbacks q) =
      {k'. k' < length (outlets s) \<and>
         (outlets s)[k := getMetadataReady_then (currentMetadataReady s)] ! k' = Scheduled}"
  proof (intro set_eqI iffI)
    fix x assume x: "x \<in> set (waiting_callbacks q)"
    with w have "x < length (outlets s) \<and> outlets s ! x = Scheduled"
      by blast
    moreover from x d(1) have "x \<noteq> k"
      by blast
    ultimately show "x \<in> {k'. k' < length (outlets s) \<and>
         (outlets s)[k := getMetadataReady_then (currentMetadataReady s)] ! k' = Scheduled}"
      by simp
  next
    fix x assume "x \<in> {k'. k' < length (outlets s) \<and>
         (outlets s)[k := getMetadataReady_then (currentMetadataReady s)] ! k' = Scheduled}"
    then have x: "x < length (outlets s)"
      and v: "(outlets s)[k := getMetadataReady_then (currentMetadataReady s)] ! x = Scheduled"
      by simp_all
    have "x \<noteq> k"
    proof
      assume "x = k"
      with v k have "getMetadataReady_then (currentMetadataReady s) = Scheduled"
        by simp
      with callback show False
        by simp
    qed
    with v have "outlets s ! x = Scheduled"
      by simp
    with x have "x \<in> insert k (set (waiting_callbacks q))"
      unfolding w by simp
    with \<open>x \<noteq> k\<close> show "x \<in> set (waiting_callbacks q)"
      by simp
  qed
  with d(2) Then_getMetadataReady show ?thesis
    by (simp add: outlets_consistent_def)
qed

lemma outlets_consistent_step:
  assumes "outlets_consistent s"
  shows "outlets_consistent (step env cfg e s)"
proof (cases e)
  case Call_MetadataTree
  with assms show ?thesis
    by (simp add: outlets_consistent_def MetadataTree_call_def Let_def)
next
  case Call_getMetadataReady
  let ?n = "length (outlets s)"
  from assms have d: "distinct (waiting_callbacks (microtasks s))"
    and w: "set (waiting_callbacks (microtasks s)) =
      {k. k < ?n \<and> outlets s ! k = Scheduled}"
    by (simp_all add: outlets_consistent_def)
  from w have fresh: "?n \<notin> set (waiting_callbacks (microtasks s))"
    by simp
  have "insert ?n (set (waiting_callbacks (microtasks s))) =
      {k. k < Suc ?n \<and> (outlets s @ [Scheduled]) ! k = Scheduled}"
  proof (intro set_eqI iffI)
    fix x assume "x \<in> insert ?n (set (waiting_callbacks (microtasks s)))"
    then show "x \<in> {k. k < Suc ?n \<and> (outlets s @ [Scheduled]) ! k = Scheduled}"
      unfolding w by (cases "x = ?n") (simp_all add: nth_append)
  next
    fix x assume "x \<in> {k. k < Suc ?n \<and> (outlets s @ [Scheduled]) ! k = Scheduled}"
    then show "x \<in> insert ?n (set (waiting_callbacks (microtasks s)))"
      unfolding w by (cases "x < ?n") (simp_all add: nth_append)
  qed
  with d fresh Call_getMetadataReady show ?thesis
    by (simp add: outlets_consistent_def getMetadataReady_call_def)
next
  case (Settle_pendingMetadata h)
  with assms show ?thesis
    by (cases "h < length (frames s) \<and> pendingMetadata (frames s ! h) = Pending")
      (simp_all add: outlets_consistent_def pendingMetadata_settles_def)
next
  case Run_microtask
  show ?thesis
  proof (cases "microtasks s")
    case Nil
    with Run_microtask assms show ?thesis by simp
  next
    case (Cons j q)
    with Run_microtask assms show ?thesis
      by (simp add: outlets_consistent_run_job)
  qed
qed

lemma outlets_consistent_run:
  "outlets_consistent s \<Longrightarrow> outlets_consistent (run env cfg events s)"
  by (induction events arbitrary: s) (simp_all add: outlets_consistent_step)

lemma reachable_outlets_consistent:
  "outlets_consistent (run env cfg events createMetadataComponents)"
  by (rule outlets_consistent_run) (simp add: outlets_consistent_def createMetadataComponents_def)

text \<open>
  A callback behind \<open>n\<close> jobs is at the head of the queue when \<open>n\<close> microtasks have
  run, whatever else happens in between.
\<close>

lemma callback_reaches_head:
  assumes "microtasks s = q1 @ Then_getMetadataReady k # q2"
    and "count_list events Run_microtask = length q1"
  shows "\<exists>q. microtasks (run env cfg events s) = Then_getMetadataReady k # q"
  using assms
proof (induction events arbitrary: s q1 q2)
  case Nil
  then show ?case by simp
next
  case (Cons e events)
  show ?case
  proof (cases e)
    case Call_MetadataTree
    with Cons.prems have "microtasks (step env cfg e s) = q1 @ Then_getMetadataReady k # q2"
      and "count_list events Run_microtask = length q1"
      by (simp_all add: MetadataTree_call_def Let_def)
    from Cons.IH [OF this] show ?thesis by simp
  next
    case Call_getMetadataReady
    with Cons.prems have "microtasks (step env cfg e s) =
        q1 @ Then_getMetadataReady k # (q2 @ [Then_getMetadataReady (length (outlets s))])"
      and "count_list events Run_microtask = length q1"
      by (simp_all add: getMetadataReady_call_def)
    from Cons.IH [OF this] show ?thesis by simp
  next
    case (Settle_pendingMetadata h)
    with Cons.prems have "\<exists>q2'. microtasks (step env cfg e s) = q1 @ Then_getMetadataReady k # q2'"
      and c: "count_list events Run_microtask = length q1"
      by (simp_all add: pendingMetadata_settles_def)
    then obtain q2' where "microtasks (step env cfg e s) = q1 @ Then_getMetadataReady k # q2'"
      by blast
    from Cons.IH [OF this c] show ?thesis by simp
  next
    case Run_microtask
    with Cons.prems(2) obtain j q1' where q1: "q1 = j # q1'"
      and c: "count_list events Run_microtask = length q1'"
      by (cases q1) simp_all
    with Run_microtask Cons.prems(1)
    have "microtasks (step env cfg e s) = q1' @ Then_getMetadataReady k # q2"
      by simp
    from Cons.IH [OF this c] show ?thesis by simp
  qed
qed

text \<open>A promise whose callback has run is not touched again.\<close>

lemma settled_outlet_step:
  assumes "outlets_consistent s" and "k < length (outlets s)" and "outlets s ! k \<noteq> Scheduled"
  shows "k < length (outlets (step env cfg e s)) \<and> outlets (step env cfg e s) ! k = outlets s ! k"
proof (cases e)
  case Call_MetadataTree
  with assms show ?thesis by (simp add: MetadataTree_call_def Let_def)
next
  case Call_getMetadataReady
  with assms show ?thesis by (simp add: getMetadataReady_call_def nth_append)
next
  case (Settle_pendingMetadata h)
  with assms show ?thesis by (simp add: pendingMetadata_settles_def)
next
  case Run_microtask
  show ?thesis
  proof (cases "microtasks s")
    case Nil
    with Run_microtask assms show ?thesis by simp
  next
    case (Cons j q)
    show ?thesis
    proof (cases j)
      case (Then_getMetadataReady k')
      with Cons assms(1) have "k' \<in> {k. k < length (outlets s) \<and> outlets s ! k = Scheduled}"
        by (auto simp add: outlets_consistent_def)
      with assms(3) have "k' \<noteq> k"
        by auto
      with Run_microtask Cons Then_getMetadataReady assms(2) show ?thesis
        by simp
    qed (use Run_microtask Cons assms(2) in simp_all)
  qed
qed

lemma settled_outlet_run:
  assumes "outlets_consistent s" and "k < length (outlets s)" and "outlets s ! k \<noteq> Scheduled"
  shows "k < length (outlets (run env cfg events s)) \<and>
         outlets (run env cfg events s) ! k = outlets s ! k"
  using assms
proof (induction events arbitrary: s)
  case Nil
  then show ?case by simp
next
  case (Cons e events)
  from settled_outlet_step [OF Cons.prems, of env cfg e]
  have "k < length (outlets (step env cfg e s))"
    and same: "outlets (step env cfg e s) ! k = outlets s ! k"
    by simp_all
  moreover have "outlets_consistent (step env cfg e s)"
    using Cons.prems(1) by (rule outlets_consistent_step)
  moreover have "outlets (step env cfg e s) ! k \<noteq> Scheduled"
    using same Cons.prems(3) by simp
  ultimately show ?case
    using Cons.IH [of "step env cfg e s"] same by simp
qed

text \<open>Only a call of \<open>MetadataTree\<close> writes the cell, and it never writes \<open>null\<close>.\<close>

lemma currentMetadataReady_step:
  "currentMetadataReady (step env cfg e s) =
     (if e = Call_MetadataTree then Some (length (frames s)) else currentMetadataReady s)"
proof (cases e)
  case Run_microtask
  then show ?thesis by (cases "microtasks s") simp_all
qed (simp_all add: MetadataTree_call_def Let_def getMetadataReady_call_def pendingMetadata_settles_def)

lemma currentMetadataReady_null:
  "currentMetadataReady (run env cfg events s) = None \<longleftrightarrow>
     currentMetadataReady s = None \<and> Call_MetadataTree \<notin> set events"
  by (induction events arbitrary: s) (auto simp add: currentMetadataReady_step)

text \<open>
  C4, as the code has it. The callback of \<open>getMetadataReady\<close> reads the cell one
  microtask after the call. With \<open>getMetadataReady\<close> called while the cell is
  \<open>null\<close> and \<open>MetadataTree\<close> called before that microtask runs, the promise is
  not rejected: it follows \<open>metadataReady\<close>, is pending while the resolution is,
  and fulfils when the resolution succeeds.
\<close>

theorem getMetadataReady_before_MetadataTree_counterexample:
  "currentMetadataReady createMetadataComponents = None
   \<and> getMetadataReady_promise
       (run demo_env (demo_args (Some NotFound) False)
          [Call_getMetadataReady, Call_MetadataTree, Run_microtask]
          createMetadataComponents) 0 = Pending
   \<and> getMetadataReady_promise
       (run demo_env (demo_args (Some NotFound) False)
          [Call_getMetadataReady, Call_MetadataTree, Run_microtask,
           Settle_pendingMetadata 0, Run_microtask]
          createMetadataComponents) 0 = Fulfilled JSUndefined"
  by (simp add: createMetadataComponents_def getMetadataReady_call_def getMetadataReady_then_def
      getMetadataReady_promise_def MetadataTree_call_def pendingMetadata_settles_def
      demo_resolution_ok Let_def)

text \<open>
  C4, amended. The callback of a \<open>getMetadataReady\<close> call runs as the microtask
  behind the ones already queued, whatever else happens in between; when its
  turn comes the promise is still pending. The cell is \<open>null\<close> at that moment exactly when it was
  \<open>null\<close> at the call and \<open>MetadataTree\<close> was not called in between. If it is
  \<open>null\<close> then, the promise is rejected with the \<open>Error\<close> whose message is
  \<open>getMetadataReady was called before MetadataTree rendered\<close>, and stays so
  whatever happens afterwards, a later call of \<open>MetadataTree\<close> included; it never
  fulfils. If the cell holds a \<open>metadataReady\<close> then, the promise follows that
  \<open>metadataReady\<close> from there on.
\<close>

theorem getMetadataReady_settles_by_cell_at_callback:
  fixes env :: "('t, 'g, 'x, 'p, 'f, 'v, 'i) collaborators"
    and cfg :: "('t, 'g, 'x, 'p) components_args"
    and events before after :: "event list"
    and s s1 s2 :: state
  defines "s \<equiv> run env cfg events createMetadataComponents"
    and "s1 \<equiv> run env cfg (Call_getMetadataReady # before) s"
    and "s2 \<equiv> run env cfg (Call_getMetadataReady # before @ Run_microtask # after) s"
  assumes turn: "count_list before Run_microtask = length (microtasks s)"
  shows "getMetadataReady_promise s1 (length (outlets s)) = Pending
       \<and> (currentMetadataReady s1 = None \<longleftrightarrow>
            currentMetadataReady s = None \<and> Call_MetadataTree \<notin> set before)
       \<and> (currentMetadataReady s1 = None \<longrightarrow>
            getMetadataReady_promise s2 (length (outlets s)) =
              Rejected (JSError ''getMetadataReady was called before MetadataTree rendered''))
       \<and> (\<forall>h. currentMetadataReady s1 = Some h \<longrightarrow>
            getMetadataReady_promise s2 (length (outlets s)) = metadataReady (frames s2 ! h))"
proof -
  let ?k = "length (outlets s)"
  let ?s0 = "getMetadataReady_call s"
  have s1: "s1 = run env cfg before ?s0"
    by (simp add: s1_def)
  have "microtasks ?s0 = microtasks s @ Then_getMetadataReady ?k # []"
    by (simp add: getMetadataReady_call_def)
  from callback_reaches_head [OF this turn, of env cfg]
  obtain q where q: "microtasks s1 = Then_getMetadataReady ?k # q"
    unfolding s1 by blast
  have "s1 = run env cfg (events @ Call_getMetadataReady # before) createMetadataComponents"
    by (simp add: s1_def s_def run_append)
  then have c1: "outlets_consistent s1"
    by (simp only: reachable_outlets_consistent)
  with q have "?k \<in> {k. k < length (outlets s1) \<and> outlets s1 ! k = Scheduled}"
    by (auto simp add: outlets_consistent_def)
  then have k1: "?k < length (outlets s1)" and waiting: "outlets s1 ! ?k = Scheduled"
    by simp_all
  have pending: "getMetadataReady_promise s1 ?k = Pending"
    using waiting by (simp add: getMetadataReady_promise_def)
  have cell: "currentMetadataReady s1 = None \<longleftrightarrow>
            currentMetadataReady s = None \<and> Call_MetadataTree \<notin> set before"
    unfolding s1 by (simp add: currentMetadataReady_null getMetadataReady_call_def)
  let ?s1' = "step env cfg Run_microtask s1"
  have ran: "outlets ?s1' ! ?k = getMetadataReady_then (currentMetadataReady s1)"
    and k1': "?k < length (outlets ?s1')"
    using q k1 by simp_all
  have "outlets ?s1' ! ?k \<noteq> Scheduled"
    unfolding ran by (simp add: getMetadataReady_then_def split: option.split)
  moreover have "outlets_consistent ?s1'"
    using c1 by (rule outlets_consistent_step)
  ultimately have "outlets (run env cfg after ?s1') ! ?k = outlets ?s1' ! ?k"
    using k1' settled_outlet_run [of ?s1' ?k env cfg after] by simp
  moreover have "s2 = run env cfg after ?s1'"
    by (simp add: s2_def s1_def run_append)
  ultimately have final: "outlets s2 ! ?k = getMetadataReady_then (currentMetadataReady s1)"
    using ran by simp
  have rejected: "currentMetadataReady s1 = None \<longrightarrow>
            getMetadataReady_promise s2 ?k =
              Rejected (JSError ''getMetadataReady was called before MetadataTree rendered'')"
    using final by (simp add: getMetadataReady_promise_def getMetadataReady_then_def)
  have follows: "\<forall>h. currentMetadataReady s1 = Some h \<longrightarrow>
            getMetadataReady_promise s2 ?k = metadataReady (frames s2 ! h)"
    using final by (simp add: getMetadataReady_promise_def getMetadataReady_then_def)
  from pending cell rejected follows show ?thesis
    by blast
qed

theorem getMetadataReady_settles_by_cell_at_callback_witness:
  "getMetadataReady_promise
     (run demo_env (demo_args None False) [Call_getMetadataReady, Run_microtask, Call_MetadataTree]
        createMetadataComponents) 0 =
     Rejected (JSError ''getMetadataReady was called before MetadataTree rendered'')
   \<and> getMetadataReady_promise
     (run demo_env (demo_args (Some NotFound) False)
        [Call_getMetadataReady, Call_MetadataTree, Run_microtask] createMetadataComponents) 0 =
     metadataReady (frames
       (run demo_env (demo_args (Some NotFound) False)
          [Call_getMetadataReady, Call_MetadataTree, Run_microtask] createMetadataComponents) ! 0)"
proof -
  have turn: "count_list [] Run_microtask =
      length (microtasks (run demo_env cfg [] createMetadataComponents))"
    and turn': "count_list [Call_MetadataTree] Run_microtask =
      length (microtasks (run demo_env cfg [] createMetadataComponents))" for cfg
    by (simp_all add: createMetadataComponents_def)
  have null: "currentMetadataReady (run demo_env (demo_args None False) [Call_getMetadataReady]
      createMetadataComponents) = None"
    by (simp add: createMetadataComponents_def getMetadataReady_call_def)
  have cell: "currentMetadataReady (run demo_env (demo_args (Some NotFound) False)
      [Call_getMetadataReady, Call_MetadataTree] createMetadataComponents) = Some 0"
    by (simp add: createMetadataComponents_def getMetadataReady_call_def MetadataTree_call_def
        Let_def)
  from getMetadataReady_settles_by_cell_at_callback [where events = "[]" and before = "[]"
      and after = "[Call_MetadataTree]" and env = demo_env and cfg = "demo_args None False",
      OF turn] null
  have a: "getMetadataReady_promise
     (run demo_env (demo_args None False) [Call_getMetadataReady, Run_microtask, Call_MetadataTree]
        createMetadataComponents) 0 =
     Rejected (JSError ''getMetadataReady was called before MetadataTree rendered'')"
    by (simp add: createMetadataComponents_def)
  from getMetadataReady_settles_by_cell_at_callback [where events = "[]"
      and before = "[Call_MetadataTree]" and after = "[]" and env = demo_env
      and cfg = "demo_args (Some NotFound) False", OF turn'] cell
  have b: "getMetadataReady_promise
     (run demo_env (demo_args (Some NotFound) False)
        [Call_getMetadataReady, Call_MetadataTree, Run_microtask] createMetadataComponents) 0 =
     metadataReady (frames
       (run demo_env (demo_args (Some NotFound) False)
          [Call_getMetadataReady, Call_MetadataTree, Run_microtask] createMetadataComponents) ! 0)"
    by (simp add: createMetadataComponents_def)
  from a b show ?thesis
    by (rule conjI)
qed


section \<open>The tracked metadata context\<close>

text \<open>
  C10, as the code has it. With a store of a static render that has outstanding
  fallback parameters and a tracker that throws, reading \<open>pathname\<close> throws what
  the tracker threw instead of returning the pathname.
\<close>

theorem tracked_pathname_read_throws_counterexample:
  "pathname (createTrackedMetadataContext demo_tracker ''/blog/[slug]''
      \<lparr>renderOpts_trailingSlash = False, renderOpts_nextConfigOutput = None\<rparr>
      (Some demo_store)) [] = (Inl (JSError ''postponed''), [''pathname''])"
  by (simp add: createTrackedMetadataContext_def createMetadataContext_def demo_store_def
      demo_tracker_def)

text \<open>
  C10, amended. Reading \<open>pathname\<close> of a tracked context calls
  \<open>trackFallbackParamAccessed\<close> with the store and \<open>'pathname'\<close> exactly when a store
  is present, static generation is in progress and the fallback route parameters
  are present and not empty; the read then throws what the tracker throws, if it
  throws, and returns the pathname argument otherwise. In every other case the
  read returns the pathname argument and leaves the world as it was. A read that
  returns always returns the pathname argument.
\<close>

theorem tracked_pathname_read:
  "((\<forall>store params. staticGenerationStore = Some store \<longrightarrow> isStaticGeneration store \<longrightarrow>
        fallbackRouteParams store = Some params \<longrightarrow> params = []) \<longrightarrow>
      pathname (createTrackedMetadataContext track pathname' renderOpts staticGenerationStore) w =
        (Inr pathname', w))
   \<and> (\<forall>store params. staticGenerationStore = Some store \<and> isStaticGeneration store \<and>
        fallbackRouteParams store = Some params \<and> params \<noteq> [] \<longrightarrow>
      pathname (createTrackedMetadataContext track pathname' renderOpts staticGenerationStore) w =
        (case track store ''pathname'' w of
           (Some reason, w') \<Rightarrow> (Inl reason, w')
         | (None, w') \<Rightarrow> (Inr pathname', w')))
   \<and> (\<forall>v. fst (pathname (createTrackedMetadataContext track pathname' renderOpts
                 staticGenerationStore) w) = Inr v \<longrightarrow> v = pathname')"
  by (auto simp add: createTrackedMetadataContext_def createMetadataContext_def
      split: option.splits prod.splits)

theorem tracked_pathname_read_witness:
  "pathname (createTrackedMetadataContext (\<lambda>store expression accessed. (None, accessed @ [expression]))
      ''/blog/[slug]'' \<lparr>renderOpts_trailingSlash = False, renderOpts_nextConfigOutput = None\<rparr>
      (Some demo_store)) [] = (Inr ''/blog/[slug]'', [''pathname''])
   \<and> pathname (createTrackedMetadataContext demo_tracker
      ''/blog/[slug]'' \<lparr>renderOpts_trailingSlash = False, renderOpts_nextConfigOutput = None\<rparr>
      None) [] = (Inr ''/blog/[slug]'', [])"
proof -
  have store: "Some demo_store = Some demo_store \<and> isStaticGeneration demo_store \<and>
      fallbackRouteParams demo_store = Some [(''slug'', ''%%drp:slug%%'')] \<and>
      [(''slug'', ''%%drp:slug%%'')] \<noteq> []"
    by (simp add: demo_store_def)
  have none: "\<forall>store params. (None :: StaticGenerationStore option) = Some store \<longrightarrow>
      isStaticGeneration store \<longrightarrow> fallbackRouteParams store = Some params \<longrightarrow> params = []"
    by simp
  from tracked_pathname_read [of "Some demo_store"
      "\<lambda>store expression accessed. (None, accessed @ [expression])" "''/blog/[slug]''"
      "\<lparr>renderOpts_trailingSlash = False, renderOpts_nextConfigOutput = None\<rparr>" "[]"] store
  have a: "pathname (createTrackedMetadataContext (\<lambda>store expression accessed. (None, accessed @ [expression]))
      ''/blog/[slug]'' \<lparr>renderOpts_trailingSlash = False, renderOpts_nextConfigOutput = None\<rparr>
      (Some demo_store)) [] = (Inr ''/blog/[slug]'', [''pathname''])"
    by simp
  from tracked_pathname_read [of None demo_tracker "''/blog/[slug]''"
      "\<lparr>renderOpts_trailingSlash = False, renderOpts_nextConfigOutput = None\<rparr>" "[]"] none
  have b: "pathname (createTrackedMetadataContext demo_tracker
      ''/blog/[slug]'' \<lparr>renderOpts_trailingSlash = False, renderOpts_nextConfigOutput = None\<rparr>
      None) ([] :: string list) = (Inr ''/blog/[slug]'', [])"
    by blast
  from a b show ?thesis
    by simp
qed


end
